theory Spec2Isabelle
  imports Complex_Main "HOL-Library.Product_Lexorder"
begin

text \<open>
  A model of the recommendation and difficulty-adaptation engine of the platform backend
  (the package ai_engine): the generation backend, the curated store and the result
  cache, themed explanations, content adaptation, recommendations and the difficulty
  estimate. Each function of the source is a function of the same name here; what it
  reads from its surroundings (the database, the cache, the clock, the curated file, the
  adapter) is an argument, and what it changes is part of the result. The definitions
  come first, the results about them after.
\<close>

section \<open>Python values used by the engine\<close>

text \<open>
  Strings are lists of characters read as code points 0..255. Integers are Python's
  unbounded integers. Floating point values that the engine only compares with small
  integer constants or averages (completion percentages, the mean difficulty) are
  modelled by exact rationals.
\<close>

datatype pyval = PyStr string | PyInt int | PyBool bool

type_synonym dict = "(string \<times> pyval) list"

text \<open>
  The truth test \<open>if x:\<close> on an optional string: \<open>None\<close> and the empty string fail
  it. \<open>when_truthy x\<close> is the string that passed the test.
\<close>

fun when_truthy :: "string option \<Rightarrow> string option" where
  "when_truthy None = None"
| "when_truthy (Some s) = (if s = [] then None else Some s)"

text \<open>\<open>str(n)\<close> for an integer: decimal digits, with a minus sign below zero.\<close>

definition digit_char :: "nat \<Rightarrow> char" where
  "digit_char d = ''0123456789'' ! (d mod 10)"

function str_nat :: "nat \<Rightarrow> string" where
  "str_nat n = (if n < 10 then [digit_char n] else str_nat (n div 10) @ [digit_char (n mod 10)])"
  by pat_completeness auto
termination
  by (relation "measure id") auto

declare str_nat.simps [simp del]

definition str_int :: "int \<Rightarrow> string" where
  "str_int i = (if i < 0 then CHR ''-'' # str_nat (nat (- i)) else str_nat (nat i))"

text \<open>\<open>str(x)\<close> for an optional string inside an f-string: \<open>None\<close> prints as its name.\<close>

fun str_opt :: "string option \<Rightarrow> string" where
  "str_opt None = ''None''"
| "str_opt (Some s) = s"

text \<open>
  \<open>str.isspace\<close> on one character, which is also the class \<open>\s\<close> of \<open>re\<close> on text:
  tab to carriage return, the four separators 28..31, space, NEL and the no-break space.
\<close>

definition isspace :: "char \<Rightarrow> bool" where
  "isspace c =
     (c \<in> set [CHR 0x09, CHR 0x0A, CHR 0x0B, CHR 0x0C, CHR 0x0D, CHR 0x1C, CHR 0x1D,
                CHR 0x1E, CHR 0x1F, CHR 0x20, CHR 0x85, CHR 0xA0])"

definition strip :: "string \<Rightarrow> string" where
  "strip s = rev (dropWhile isspace (rev (dropWhile isspace s)))"

text \<open>\<open>str.lower\<close>: the letters A..Z and the capital letters of Latin-1 move up by 32.\<close>

definition lower_char :: "char \<Rightarrow> char" where
  "lower_char c =
     (let n = (of_char c :: nat)
      in if (65 \<le> n \<and> n \<le> 90) \<or> (192 \<le> n \<and> n \<le> 222 \<and> n \<noteq> 215)
         then char_of (n + 32) else c)"

definition lower :: "string \<Rightarrow> string" where
  "lower s = map lower_char s"

text \<open>
  \<open>round(x)\<close> with one argument: the nearest integer, a tie going to the even
  neighbour.
\<close>

definition py_round :: "rat \<Rightarrow> int" where
  "py_round q =
     (let f = \<lfloor>q\<rfloor>; d = q - of_int f
      in if d < 1 / 2 then f
         else if 1 / 2 < d then f + 1
         else if even f then f else f + 1)"

definition newline :: char where
  "newline = CHR 0x0A"

section \<open>Errors\<close>

text \<open>
  The exceptions the engine can meet: a row that does not exist, a database that cannot
  be reached, what constructing an adapter raises (\<open>ValueError\<close> for a missing API
  key, \<open>TypeError\<close> for a class that cannot be instantiated), a negative slice bound
  and a division by zero. \<open>str_error\<close> is \<open>str(e)\<close>, the text the handlers put
  into their results.
\<close>

datatype error =
    DoesNotExist string
  | DatabaseError string
  | ValueError string
  | TypeError string
  | NegativeIndexing
  | ZeroDivisionError

fun str_error :: "error \<Rightarrow> string" where
  "str_error (DoesNotExist model) = model @ '' matching query does not exist.''"
| "str_error (DatabaseError msg) = msg"
| "str_error (ValueError msg) = msg"
| "str_error (TypeError msg) = msg"
| "str_error NegativeIndexing = ''Negative indexing is not supported.''"
| "str_error ZeroDivisionError = ''division by zero''"

section \<open>The generation backend (adapter.py)\<close>

datatype adapter_class =
    OpenAIAdapter
  | CohereAdapter
  | AnthropicAdapter
  | HuggingFaceInferenceAPIAdapter
  | HuggingFaceAdapter
  | MockAdapter

fun class_name :: "adapter_class \<Rightarrow> string" where
  "class_name OpenAIAdapter = ''OpenAIAdapter''"
| "class_name CohereAdapter = ''CohereAdapter''"
| "class_name AnthropicAdapter = ''AnthropicAdapter''"
| "class_name HuggingFaceInferenceAPIAdapter = ''HuggingFaceInferenceAPIAdapter''"
| "class_name HuggingFaceAdapter = ''HuggingFaceAdapter''"
| "class_name MockAdapter = ''MockAdapter''"

record request =
  prompt :: string
  max_tokens :: nat
  temperature :: rat

text \<open>
  An adapter instance: its class and the provider behind it. \<open>transport\<close> stands for
  the body of the \<open>try\<close> block of \<open>generate_text\<close> up to the extracted text
  (the HTTP post, \<open>raise_for_status\<close>, decoding the reply and reading the text out
  of it): \<open>None\<close> when any of these raises, the text otherwise.
\<close>

record adapter =
  adapter_cls :: adapter_class
  transport :: "request \<Rightarrow> string option"

definition placeholder :: string where
  "placeholder = ''I couldn't generate a response at this time.''"

text \<open>
  \<open>generate_text\<close> as the four implemented classes write it: the stripped text of
  the reply, and the fixed sentence when the \<open>try\<close> block raised. The classes
  \<open>HuggingFaceAdapter\<close> and \<open>MockAdapter\<close> have no method bodies in adapter.py;
  an instance of one of them stands for an implementation of the same shape.
\<close>

definition generate_text :: "adapter \<Rightarrow> request \<Rightarrow> string" where
  "generate_text a req =
     (case transport a req of
        None \<Rightarrow> placeholder
      | Some text \<Rightarrow> strip text)"

section \<open>Model information (utils.py)\<close>

text \<open>
  The names bound at module level in utils.py, which is what \<open>globals()\<close> returns
  inside \<open>get_model_info\<close>: the module attributes, the imports at the top of the file,
  the logger and the five functions. The import of \<open>get_current_adapter\<close> inside the
  function binds a local name only.
\<close>

definition utils_globals :: "string list" where
  "utils_globals =
     [''__name__'', ''__doc__'', ''__package__'', ''__loader__'', ''__spec__'',
      ''__file__'', ''__cached__'', ''__builtins__'',
      ''Dict'', ''Any'', ''List'', ''Optional'', ''os'', ''json'', ''logging'', ''logger'',
      ''initialize_curated_content'', ''add_curated_explanation'', ''add_curated_hint'',
      ''get_model_info'']"

definition isinstance :: "adapter \<Rightarrow> adapter_class \<Rightarrow> bool" where
  "isinstance a cls = (adapter_cls a = cls)"

record model_info =
  adapter_type :: string
  is_mock :: bool
  status :: string

text \<open>
  \<open>get_model_info\<close>, given the adapter that \<open>get_current_adapter()\<close> returned. The
  conditional expression evaluates \<open>isinstance\<close> only when the name is bound.
\<close>

definition get_model_info :: "adapter \<Rightarrow> model_info" where
  "get_model_info a =
     \<lparr> adapter_type = class_name (adapter_cls a),
       is_mock = (if ''MockAdapter'' \<in> set utils_globals then isinstance a MockAdapter else False),
       status = ''active'' \<rparr>"

section \<open>The result cache\<close>

text \<open>
  The text that \<open>json.dumps\<close> writes for a result dictionary, kept as the dictionary
  it stands for: \<open>json.loads\<close> gives back a dictionary of strings, integers and truth
  values as it was. Such a text is never empty, so it always passes a truth test.
\<close>

datatype json_text = JsonText dict

definition json_dumps :: "dict \<Rightarrow> json_text" where
  "json_dumps d = JsonText d"

fun json_loads :: "json_text \<Rightarrow> dict" where
  "json_loads (JsonText d) = d"

text \<open>
  The cache maps a key to a value and the time at which the entry expires; an expired
  entry reads as absent. The keys of the two operations start with different words
  (\<open>themed_explanation:\<close>, \<open>adapted_content:\<close>), so neither reads what the other
  wrote, and the cache is kept as one region per operation: explanation texts in the
  first, JSON texts of result dictionaries in the second.
\<close>

type_synonym 'v entries = "string \<Rightarrow> ('v \<times> int) option"

record cache =
  explanations :: "string entries"
  adaptations :: "json_text entries"

definition CACHE_DURATION :: int where
  "CACHE_DURATION = 86400"

definition cache_get :: "'v entries \<Rightarrow> int \<Rightarrow> string \<Rightarrow> 'v option" where
  "cache_get m now key =
     (case m key of
        None \<Rightarrow> None
      | Some (v, expiry) \<Rightarrow> if now < expiry then Some v else None)"

definition cache_set :: "'v entries \<Rightarrow> int \<Rightarrow> string \<Rightarrow> 'v \<Rightarrow> int \<Rightarrow> 'v entries" where
  "cache_set m now key v timeout = m(key \<mapsto> (v, now + timeout))"

definition empty_cache :: cache where
  "empty_cache = \<lparr> explanations = Map.empty, adaptations = Map.empty \<rparr>"

section \<open>The curated store\<close>

text \<open>
  One entry of explanations.json; a field is what \<open>item.get(field, '')\<close> reads, so a
  missing field is the empty string. The file is \<open>None\<close> when it does not exist or
  cannot be read.
\<close>

record explanation_entry =
  entry_concept :: string
  entry_theme :: string
  entry_age_group :: string
  entry_explanation :: string

type_synonym curated_file = "explanation_entry list option"

definition entry_matches :: "string \<Rightarrow> string \<Rightarrow> string option \<Rightarrow> explanation_entry \<Rightarrow> bool" where
  "entry_matches concept theme age_group item =
     (lower (entry_concept item) = lower concept
      \<and> entry_theme item = theme
      \<and> (age_group = None \<or> Some (entry_age_group item) = age_group))"

text \<open>The loop returns at the first matching entry, whatever its text.\<close>

definition get_curated_explanation ::
  "curated_file \<Rightarrow> string \<Rightarrow> string \<Rightarrow> string option \<Rightarrow> string option" where
  "get_curated_explanation file concept theme age_group =
     (case file of
        None \<Rightarrow> None
      | Some items \<Rightarrow>
          (case find (entry_matches concept theme age_group) items of
             None \<Rightarrow> None
           | Some item \<Rightarrow> Some (entry_explanation item)))"

text \<open>\<open>add_curated_explanation\<close> of utils.py appends an entry and reports success.\<close>

definition add_curated_explanation ::
  "curated_file \<Rightarrow> string \<Rightarrow> string \<Rightarrow> string \<Rightarrow> string \<Rightarrow> bool \<times> curated_file" where
  "add_curated_explanation file concept theme age_group explanation =
     (case file of
        None \<Rightarrow> (False, None)
      | Some items \<Rightarrow>
          (True, Some (items @ [\<lparr> entry_concept = concept, entry_theme = theme,
                                  entry_age_group = age_group,
                                  entry_explanation = explanation \<rparr>])))"

section \<open>Themed explanations (content_generator.py)\<close>

definition apostrophe :: char where
  "apostrophe = CHR 0x27"

definition explanation_cache_key :: "string \<Rightarrow> string \<Rightarrow> string option \<Rightarrow> string" where
  "explanation_cache_key concept theme age_group =
     ''themed_explanation:'' @ concept @ '':'' @ theme @ '':'' @ str_opt age_group"

definition explanation_prompt ::
  "string \<Rightarrow> string \<Rightarrow> string option \<Rightarrow> string option \<Rightarrow> string" where
  "explanation_prompt concept theme age_group base_explanation =
     (let age_context = (case when_truthy age_group of Some g \<Rightarrow> '' for '' @ g | None \<Rightarrow> []);
          p = [newline] @ ''    Please explain the programming concept of '' @ [apostrophe]
              @ concept @ [apostrophe] @ '' using a '' @ theme @ '' theme'' @ age_context
              @ ''.'' @ [newline]
              @ ''    Make it engaging, visual, and easy to understand.'' @ [newline]
              @ ''    Use metaphors related to '' @ theme @ '' to make the concept relatable.''
              @ [newline] @ ''    ''
      in case when_truthy base_explanation of
           Some b \<Rightarrow> p @ [newline, newline] @ ''Here's a basic explanation to enhance: '' @ b
         | None \<Rightarrow> p)"

definition explanation_fallback :: "string \<Rightarrow> string \<Rightarrow> string option \<Rightarrow> string" where
  "explanation_fallback concept theme base_explanation =
     (case when_truthy base_explanation of
        Some b \<Rightarrow> b
      | None \<Rightarrow> ''Sorry, I couldn't generate a '' @ theme @ ''-themed explanation for ''
                  @ concept @ '' right now.'')"

text \<open>
  \<open>generate_themed_explanation\<close>. The arguments before the four of the source are the
  surroundings of the call: the curated file, what \<open>get_current_adapter()\<close> gives (an
  adapter, or the exception it raises), the time and the cache. The result is the
  returned text, the cache after the call and the requests sent to \<open>generate_text\<close>
  during the call.
\<close>

definition generate_themed_explanation ::
  "curated_file \<Rightarrow> error + adapter \<Rightarrow> int \<Rightarrow> cache
   \<Rightarrow> string \<Rightarrow> string \<Rightarrow> string option \<Rightarrow> string option
   \<Rightarrow> string \<times> cache \<times> request list" where
  "generate_themed_explanation file backend now c concept theme age_group base_explanation =
     (let cache_key = explanation_cache_key concept theme age_group
      in case when_truthy (cache_get (explanations c) now cache_key) of
           Some cached_result \<Rightarrow> (cached_result, c, [])
         | None \<Rightarrow>
             (case when_truthy (get_curated_explanation file concept theme age_group) of
                Some curated_explanation \<Rightarrow>
                  (curated_explanation,
                   c\<lparr> explanations :=
                        cache_set (explanations c) now cache_key curated_explanation
                          CACHE_DURATION \<rparr>,
                   [])
              | None \<Rightarrow>
                  let req = \<lparr> prompt = explanation_prompt concept theme age_group
                                         base_explanation,
                              max_tokens = 400, temperature = 7 / 10 \<rparr>
                  in case backend of
                       Inl e \<Rightarrow> (explanation_fallback concept theme base_explanation, c, [])
                     | Inr a \<Rightarrow>
                         let explanation = generate_text a req
                         in (explanation,
                             c\<lparr> explanations :=
                                  cache_set (explanations c) now cache_key explanation
                                    CACHE_DURATION \<rparr>,
                             [req])))"

section \<open>The catalog and the progress records (core/models.py)\<close>

text \<open>
  The rows the engine reads, with the columns it uses. A progress record points to a
  content item, to a challenge, or to both; its \<open>content_id\<close> is \<open>None\<close> for SQL's
  NULL. \<open>available\<close> is false when the database cannot be reached, in which case every
  query raises.
\<close>

record content =
  content_pk :: int
  title :: string
  description :: string
  age_group_id :: int
  content_type :: string
  difficulty_base :: int
  created_at :: int

record user =
  user_pk :: int
  user_age_group_id :: "int option"

record user_progress =
  user_id :: int
  content_id :: "int option"
  challenge_id :: "int option"
  completion_percentage :: rat

record database =
  users :: "user list"
  contents :: "content list"
  progress :: "user_progress list"
  available :: bool

definition unavailable :: error where
  "unavailable = DatabaseError ''database is not available''"

text \<open>\<open>Content.objects.get(id=content_id)\<close>.\<close>

definition Content_get :: "database \<Rightarrow> int \<Rightarrow> error + content" where
  "Content_get db i =
     (if \<not> available db then Inl unavailable
      else case find (\<lambda>c. content_pk c = i) (contents db) of
             None \<Rightarrow> Inl (DoesNotExist ''Content'')
           | Some c \<Rightarrow> Inr c)"

text \<open>\<open>User.objects.get(id=user_id)\<close>.\<close>

definition User_get :: "database \<Rightarrow> int \<Rightarrow> error + user" where
  "User_get db i =
     (if \<not> available db then Inl unavailable
      else case find (\<lambda>u. user_pk u = i) (users db) of
             None \<Rightarrow> Inl (DoesNotExist ''User'')
           | Some u \<Rightarrow> Inr u)"

section \<open>Content adaptation (content_generator.py)\<close>

text \<open>
  \<open>re.search(label + r"[:\s]+(.*)", text)\<close> and its group 1. The search takes the
  leftmost place where the label is followed by at least one colon or white space
  character; the greedy class takes the whole run of them, and the group is the rest of
  the line, or the whole rest of the text under \<open>re.DOTALL\<close>.
\<close>

definition is_separator :: "char \<Rightarrow> bool" where
  "is_separator c = (c = CHR '':'' \<or> isspace c)"

fun is_prefix :: "string \<Rightarrow> string \<Rightarrow> bool" where
  "is_prefix [] s = True"
| "is_prefix (x # xs) [] = False"
| "is_prefix (x # xs) (y # ys) = (x = y \<and> is_prefix xs ys)"

definition match_here :: "string \<Rightarrow> bool \<Rightarrow> string \<Rightarrow> string option" where
  "match_here label dotall s =
     (if is_prefix label s
      then (case drop (length label) s of
              [] \<Rightarrow> None
            | c # cs \<Rightarrow>
                if is_separator c
                then (let rest = dropWhile is_separator cs
                      in Some (if dotall then rest else takeWhile (\<lambda>x. x \<noteq> newline) rest))
                else None)
      else None)"

fun re_search :: "string \<Rightarrow> bool \<Rightarrow> string \<Rightarrow> string option" where
  "re_search label dotall [] = None"
| "re_search label dotall (c # cs) =
     (case match_here label dotall (c # cs) of
        Some g \<Rightarrow> Some g
      | None \<Rightarrow> re_search label dotall cs)"

definition adaptation_cache_key :: "int \<Rightarrow> int \<Rightarrow> string" where
  "adaptation_cache_key cid target_difficulty =
     ''adapted_content:'' @ str_int cid @ '':'' @ str_int target_difficulty"

definition adaptation_prompt :: "content \<Rightarrow> int \<Rightarrow> string" where
  "adaptation_prompt c target_difficulty =
     (let change_direction =
            (if target_difficulty < difficulty_base c then ''simpler'' else ''more complex'')
      in [newline] @ ''        Original content: '' @ title c @ [newline]
         @ ''        Description: '' @ description c @ [newline]
         @ ''        Current difficulty level: '' @ str_int (difficulty_base c)
         @ '' (out of 5)'' @ [newline]
         @ ''        '' @ [newline]
         @ ''        Please adapt this content to make it '' @ change_direction
         @ '', at a difficulty level of '' @ str_int target_difficulty @ '' out of 5.''
         @ [newline]
         @ ''        Preserve the main learning objectives but adjust the complexity accordingly.''
         @ [newline]
         @ ''        Return the content as a title and description only.'' @ [newline]
         @ ''        '')"

text \<open>
  The body of the \<open>try\<close> block of \<open>adapt_content_difficulty\<close>. An exception comes with
  the content item when the local name \<open>content\<close> was already bound. The cache is read
  before the difficulties are compared.
\<close>

definition adapt_body ::
  "database \<Rightarrow> error + adapter \<Rightarrow> int \<Rightarrow> cache \<Rightarrow> int \<Rightarrow> int
   \<Rightarrow> (error \<times> content option) + (dict \<times> cache \<times> request list)" where
  "adapt_body db backend now c cid target_difficulty =
     (case Content_get db cid of
        Inl e \<Rightarrow> Inl (e, None)
      | Inr item \<Rightarrow>
          let cache_key = adaptation_cache_key cid target_difficulty
          in case cache_get (adaptations c) now cache_key of
               Some cached_result \<Rightarrow> Inr (json_loads cached_result, c, [])
             | None \<Rightarrow>
                 if difficulty_base item = target_difficulty
                 then (let result = [(''title'', PyStr (title item)),
                                     (''description'', PyStr (description item)),
                                     (''difficulty'', PyInt (difficulty_base item)),
                                     (''adapted'', PyBool False)]
                       in Inr (result,
                               c\<lparr> adaptations :=
                                    cache_set (adaptations c) now cache_key
                                      (json_dumps result) CACHE_DURATION \<rparr>,
                               []))
                 else
                   (case backend of
                      Inl e \<Rightarrow> Inl (e, Some item)
                    | Inr a \<Rightarrow>
                        let req = \<lparr> prompt = adaptation_prompt item target_difficulty,
                                    max_tokens = 300, temperature = 4 / 10 \<rparr>;
                            adaptation = generate_text a req;
                            title_match = re_search ''Title'' False adaptation;
                            description_match = re_search ''Description'' True adaptation;
                            adapted_title =
                              (case title_match of Some g \<Rightarrow> g | None \<Rightarrow> title item);
                            adapted_description =
                              (case description_match of Some g \<Rightarrow> g | None \<Rightarrow> adaptation);
                            result = [(''title'', PyStr adapted_title),
                                      (''description'', PyStr adapted_description),
                                      (''original_difficulty'', PyInt (difficulty_base item)),
                                      (''target_difficulty'', PyInt target_difficulty),
                                      (''adapted'', PyBool True)]
                        in Inr (result,
                                c\<lparr> adaptations :=
                                     cache_set (adaptations c) now cache_key
                                       (json_dumps result) CACHE_DURATION \<rparr>,
                                [req])))"

text \<open>
  \<open>adapt_content_difficulty\<close>: the body, and the handler of \<open>except Exception\<close>. The
  parameter \<open>user_id\<close> of the source is not used by it and is left out.
\<close>

definition adapt_content_difficulty ::
  "database \<Rightarrow> error + adapter \<Rightarrow> int \<Rightarrow> cache \<Rightarrow> int \<Rightarrow> int
   \<Rightarrow> dict \<times> cache \<times> request list" where
  "adapt_content_difficulty db backend now c cid target_difficulty =
     (case adapt_body db backend now c cid target_difficulty of
        Inr r \<Rightarrow> r
      | Inl (e, bound) \<Rightarrow>
          ([(''error'', PyStr (''Could not adapt content: '' @ str_error e)),
            (''original_title'',
               PyStr (case bound of Some item \<Rightarrow> title item | None \<Rightarrow> ''Unknown'')),
            (''adapted'', PyBool False)],
           c, []))"

section \<open>Recommendations (recommendation.py)\<close>

text \<open>
  The two id lists are subqueries over the progress records of the user; a record
  without a content item contributes NULL. \<open>sql_in\<close> is SQL's \<open>x IN (subquery)\<close> with
  its three truth values: \<open>None\<close> is unknown. \<open>exclude\<close> keeps a row when the test is
  false, \<open>When ... then\<close> fires when it is true.
\<close>

definition completed_content_ids :: "database \<Rightarrow> int \<Rightarrow> int option list" where
  "completed_content_ids db uid =
     map content_id
       (filter (\<lambda>p. user_id p = uid \<and> 80 \<le> completion_percentage p) (progress db))"

definition viewed_content_ids :: "database \<Rightarrow> int \<Rightarrow> int option list" where
  "viewed_content_ids db uid =
     map content_id (filter (\<lambda>p. user_id p = uid) (progress db))"

definition sql_in :: "int \<Rightarrow> int option list \<Rightarrow> bool option" where
  "sql_in x ids =
     (if Some x \<in> set ids then Some True
      else if None \<in> set ids then None
      else Some False)"

text \<open>A content row with the two annotations of the query.\<close>

record annotated =
  item :: content
  in_progress :: int
  relevance_score :: int

definition annotate :: "int option list \<Rightarrow> content \<Rightarrow> annotated" where
  "annotate viewed c =
     \<lparr> item = c,
       in_progress = (if sql_in (content_pk c) viewed = Some True then 10 else 0),
       relevance_score = (if difficulty_base c \<le> 3 then 5 else 1) \<rparr>"

text \<open>
  \<open>order_by('-in_progress', '-relevance_score', 'difficulty_base', '-created_at')\<close>:
  the rows in ascending order of this key, compared component by component. Rows with
  equal keys stay in the order of the table.
\<close>

definition order_key :: "annotated \<Rightarrow> int \<times> int \<times> int \<times> int" where
  "order_key r =
     (- in_progress r, - relevance_score r, difficulty_base (item r), - created_at (item r))"

definition format_item :: "annotated \<Rightarrow> dict" where
  "format_item r =
     [(''content_id'', PyInt (content_pk (item r))),
      (''title'', PyStr (title (item r))),
      (''content_type'', PyStr (content_type (item r))),
      (''difficulty'', PyInt (difficulty_base (item r))),
      (''relevance_score'', PyInt (relevance_score r + in_progress r))]"

text \<open>
  The query set \<open>recommended_content\<close> for the user and the user's age group
  \<open>age\<close>: the content of that age group, of the wanted type when one is given,
  without the completed items, annotated and ordered.
\<close>

definition recommended_content ::
  "database \<Rightarrow> int \<Rightarrow> int option \<Rightarrow> string option \<Rightarrow> annotated list" where
  "recommended_content db uid age ctype =
     (let completed = completed_content_ids db uid;
          viewed = viewed_content_ids db uid;
          query = filter (\<lambda>c. Some (age_group_id c) = age) (contents db);
          query = (case when_truthy ctype of
                     Some t \<Rightarrow> filter (\<lambda>c. content_type c = t) query
                   | None \<Rightarrow> query);
          query = filter (\<lambda>c. sql_in (content_pk c) completed = Some False) query
      in sort_key order_key (map (annotate viewed) query))"

text \<open>
  The body of the \<open>try\<close> block up to the slice \<open>recommended_content[:count]\<close>, which
  raises when \<open>count\<close> is negative.
\<close>

definition recommendations ::
  "database \<Rightarrow> int \<Rightarrow> int \<Rightarrow> string option \<Rightarrow> error + annotated list" where
  "recommendations db uid count ctype =
     (case User_get db uid of
        Inl e \<Rightarrow> Inl e
      | Inr u \<Rightarrow>
          if count < 0 then Inl NegativeIndexing
          else Inr (take (nat count)
                      (recommended_content db uid (user_age_group_id u) ctype)))"

text \<open>
  \<open>get_personalized_recommendations\<close>: both handlers return the empty list.
\<close>

definition get_personalized_recommendations ::
  "database \<Rightarrow> int \<Rightarrow> int \<Rightarrow> string option \<Rightarrow> dict list" where
  "get_personalized_recommendations db uid count ctype =
     (case recommendations db uid count ctype of
        Inl e \<Rightarrow> []
      | Inr rows \<Rightarrow> map format_item rows)"

section \<open>The difficulty estimate (difficulty_adjuster.py)\<close>

text \<open>
  The mean and the ratio are floating point numbers in the source; here they are the
  exact quotients, which round and compare the same way for any number of records a
  catalog can hold. The module also imports and instantiates \<open>AIModelAdapter\<close>, a
  name that adapter.py does not define; the estimate does not use it, and the function
  is modelled from its body.
\<close>

definition completed_progress :: "database \<Rightarrow> int \<Rightarrow> user_progress list" where
  "completed_progress db uid =
     filter (\<lambda>p. user_id p = uid \<and> 75 \<le> completion_percentage p) (progress db)"

text \<open>
  \<open>content__difficulty_base\<close> of a record: the outer join gives NULL for a record
  without a content item.
\<close>

definition content_difficulty_base :: "database \<Rightarrow> user_progress \<Rightarrow> int option" where
  "content_difficulty_base db p =
     (case content_id p of
        None \<Rightarrow> None
      | Some i \<Rightarrow> map_option difficulty_base (find (\<lambda>c. content_pk c = i) (contents db)))"

text \<open>\<open>Avg\<close> skips NULL and is NULL when nothing is left.\<close>

definition Avg :: "int option list \<Rightarrow> rat option" where
  "Avg vs =
     (let xs = List.map_filter (\<lambda>v. v) vs
      in if xs = [] then None else Some (of_int (sum_list xs) / of_nat (length xs)))"

definition avg_diff :: "database \<Rightarrow> int \<Rightarrow> rat option" where
  "avg_diff db uid = Avg (map (content_difficulty_base db) (completed_progress db uid))"

text \<open>\<open>x or 1\<close> on an optional number.\<close>

definition or_1 :: "rat option \<Rightarrow> rat" where
  "or_1 x = (case x of None \<Rightarrow> 1 | Some m \<Rightarrow> if m = 0 then 1 else m)"

definition true_div :: "nat \<Rightarrow> nat \<Rightarrow> error + rat" where
  "true_div a b = (if b = 0 then Inl ZeroDivisionError else Inr (of_nat a / of_nat b))"

definition difficulty_body :: "database \<Rightarrow> int \<Rightarrow> error + int" where
  "difficulty_body db uid =
     (if \<not> available db then Inl unavailable
      else
        let completed = completed_progress db uid
        in if completed = [] then Inr 1
           else
             let avg_difficulty = or_1 (avg_diff db uid);
                 recommended_difficulty = max 1 (min 5 (py_round avg_difficulty))
             in case true_div
                       (length (filter (\<lambda>p. 90 \<le> completion_percentage p) completed))
                       (length completed) of
                  Inl e \<Rightarrow> Inl e
                | Inr ratio \<Rightarrow>
                    let high_performance = (7 / 10 \<le> ratio)
                    in Inr (if high_performance then min 5 (recommended_difficulty + 1)
                            else recommended_difficulty))"

text \<open>\<open>get_appropriate_difficulty_level\<close>: the handler returns 1.\<close>

definition get_appropriate_difficulty_level :: "database \<Rightarrow> int \<Rightarrow> int" where
  "get_appropriate_difficulty_level db uid =
     (case difficulty_body db uid of
        Inl e \<Rightarrow> 1
      | Inr d \<Rightarrow> d)"

section \<open>Notions used in the statements\<close>

text \<open>The request that \<open>generate_themed_explanation\<close> and \<open>adapt_content_difficulty\<close> send.\<close>

definition explanation_request ::
  "string \<Rightarrow> string \<Rightarrow> string option \<Rightarrow> string option \<Rightarrow> request" where
  "explanation_request concept theme age_group base_explanation =
     \<lparr> prompt = explanation_prompt concept theme age_group base_explanation,
       max_tokens = 400, temperature = 7 / 10 \<rparr>"

definition adaptation_request :: "content \<Rightarrow> int \<Rightarrow> request" where
  "adaptation_request c target_difficulty =
     \<lparr> prompt = adaptation_prompt c target_difficulty, max_tokens = 300, temperature = 4 / 10 \<rparr>"

text \<open>The cache after one \<open>cache.set\<close> with the fixed duration.\<close>

definition store_explanation :: "cache \<Rightarrow> int \<Rightarrow> string \<Rightarrow> string \<Rightarrow> cache" where
  "store_explanation c now key s =
     c\<lparr> explanations := cache_set (explanations c) now key s CACHE_DURATION \<rparr>"

definition store_adaptation :: "cache \<Rightarrow> int \<Rightarrow> string \<Rightarrow> dict \<Rightarrow> cache" where
  "store_adaptation c now key d =
     c\<lparr> adaptations := cache_set (adaptations c) now key (json_dumps d) CACHE_DURATION \<rparr>"

text \<open>The result for a content item that already has the target difficulty.\<close>

definition unchanged_result :: "content \<Rightarrow> dict" where
  "unchanged_result c =
     [(''title'', PyStr (title c)), (''description'', PyStr (description c)),
      (''difficulty'', PyInt (difficulty_base c)), (''adapted'', PyBool False)]"

text \<open>The result when the backend's reply holds neither label and is kept as description.\<close>

definition degraded_result :: "content \<Rightarrow> int \<Rightarrow> string \<Rightarrow> dict" where
  "degraded_result c target_difficulty reply =
     [(''title'', PyStr (title c)), (''description'', PyStr reply),
      (''original_difficulty'', PyInt (difficulty_base c)),
      (''target_difficulty'', PyInt target_difficulty), (''adapted'', PyBool True)]"

text \<open>The result that the handler of \<open>adapt_content_difficulty\<close> builds for a bound item.\<close>

definition error_result :: "error \<Rightarrow> content \<Rightarrow> dict" where
  "error_result e c =
     [(''error'', PyStr (''Could not adapt content: '' @ str_error e)),
      (''original_title'', PyStr (title c)), (''adapted'', PyBool False)]"

text \<open>
  The order of the recommendation list, written out: \<open>a\<close> may stand before \<open>b\<close> when it
  has the larger \<open>in_progress\<close>, or the same and the larger \<open>relevance_score\<close>, or
  both the same and the smaller difficulty, or all three the same and a creation time
  that is not earlier.
\<close>

definition precedes :: "annotated \<Rightarrow> annotated \<Rightarrow> bool" where
  "precedes a b =
     (in_progress b < in_progress a
      \<or> (in_progress a = in_progress b
          \<and> (relevance_score b < relevance_score a
              \<or> (relevance_score a = relevance_score b
                  \<and> (difficulty_base (item a) < difficulty_base (item b)
                      \<or> (difficulty_base (item a) = difficulty_base (item b)
                          \<and> created_at (item b) \<le> created_at (item a)))))))"

text \<open>The rows behind the returned list: none when the body raised.\<close>

definition recommended_rows ::
  "database \<Rightarrow> int \<Rightarrow> int \<Rightarrow> string option \<Rightarrow> annotated list" where
  "recommended_rows db uid count ctype =
     (case recommendations db uid count ctype of Inl e \<Rightarrow> [] | Inr rows \<Rightarrow> rows)"

text \<open>The user has a progress record on the item of the row.\<close>

definition started :: "database \<Rightarrow> int \<Rightarrow> annotated \<Rightarrow> bool" where
  "started db uid r = (Some (content_pk (item r)) \<in> set (viewed_content_ids db uid))"

text \<open>
  The progress records of a user with at least a given percentage, read from the table
  of progress records itself: with 75 they are the completed records, with 90 the
  records with a high score. Then the content item of a record (none for a record of a
  challenge only), the content items of the completed records, their mean difficulty
  (none when no completed record belongs to a content item), the clamp to 1..5, and the
  estimate after the increment.
\<close>

definition records_from :: "database \<Rightarrow> int \<Rightarrow> rat \<Rightarrow> user_progress list" where
  "records_from db uid percent =
     filter (\<lambda>p. user_id p = uid \<and> percent \<le> completion_percentage p) (progress db)"

definition content_of :: "database \<Rightarrow> user_progress \<Rightarrow> content option" where
  "content_of db p =
     (case content_id p of
        None \<Rightarrow> None
      | Some i \<Rightarrow> find (\<lambda>c. content_pk c = i) (contents db))"

definition completed_content :: "database \<Rightarrow> int \<Rightarrow> content list" where
  "completed_content db uid = List.map_filter (content_of db) (records_from db uid 75)"

definition mean :: "int list \<Rightarrow> rat" where
  "mean xs = of_int (sum_list xs) / of_nat (length xs)"

definition mean_difficulty :: "database \<Rightarrow> int \<Rightarrow> rat option" where
  "mean_difficulty db uid =
     (if completed_content db uid = [] then None
      else Some (mean (map difficulty_base (completed_content db uid))))"

definition clamp_1_5 :: "int \<Rightarrow> int" where
  "clamp_1_5 n = max 1 (min 5 n)"

definition boosted :: "rat \<Rightarrow> int" where
  "boosted m = min 5 (clamp_1_5 (py_round m) + 1)"

section \<open>Sample data\<close>

text \<open>
  A small catalog: four items for age group 7 and one for age group 8. User 1 has
  started item 10 and completed item 13; user 2 has completed items 10 and 11 and two
  challenges, three of the four with at least 90 percent.
\<close>

definition item_loops :: content where
  "item_loops =
     \<lparr> content_pk = 10, title = ''Loops'', description = ''Repeat steps'',
       age_group_id = 7, content_type = ''lesson'', difficulty_base = 4, created_at = 100 \<rparr>"

definition item_variables :: content where
  "item_variables =
     \<lparr> content_pk = 11, title = ''Variables'', description = ''Name a value'',
       age_group_id = 7, content_type = ''lesson'', difficulty_base = 1, created_at = 200 \<rparr>"

definition item_functions :: content where
  "item_functions =
     \<lparr> content_pk = 12, title = ''Functions'', description = ''Reuse steps'',
       age_group_id = 8, content_type = ''lesson'', difficulty_base = 1, created_at = 300 \<rparr>"

definition item_lists :: content where
  "item_lists =
     \<lparr> content_pk = 13, title = ''Lists'', description = ''Many values'',
       age_group_id = 7, content_type = ''quiz'', difficulty_base = 2, created_at = 250 \<rparr>"

definition item_strings :: content where
  "item_strings =
     \<lparr> content_pk = 14, title = ''Strings'', description = ''Text values'',
       age_group_id = 7, content_type = ''lesson'', difficulty_base = 1, created_at = 150 \<rparr>"

definition demo_db :: database where
  "demo_db =
     \<lparr> users = [\<lparr> user_pk = 1, user_age_group_id = Some 7 \<rparr>,
                \<lparr> user_pk = 2, user_age_group_id = Some 7 \<rparr>],
       contents = [item_loops, item_variables, item_functions, item_lists, item_strings],
       progress =
         [\<lparr> user_id = 1, content_id = Some 10, challenge_id = None, completion_percentage = 40 \<rparr>,
          \<lparr> user_id = 1, content_id = Some 13, challenge_id = None, completion_percentage = 85 \<rparr>,
          \<lparr> user_id = 2, content_id = Some 10, challenge_id = None, completion_percentage = 100 \<rparr>,
          \<lparr> user_id = 2, content_id = Some 11, challenge_id = None, completion_percentage = 95 \<rparr>,
          \<lparr> user_id = 2, content_id = None, challenge_id = Some 5, completion_percentage = 90 \<rparr>,
          \<lparr> user_id = 2, content_id = None, challenge_id = Some 6, completion_percentage = 80 \<rparr>],
       available = True \<rparr>"

text \<open>
  Three learners on three of the items. User 4 has completed items 10 and 11 and two
  challenges, three of the four with at least 90 percent, and has stopped item 13 at 50
  percent. User 5 has completed two challenges with high scores and has stopped item 10
  at 60 percent. User 6 has stopped item 10 at 10 percent and item 11 at 74 percent.
\<close>

definition school_db :: database where
  "school_db =
     \<lparr> users = [\<lparr> user_pk = 4, user_age_group_id = Some 7 \<rparr>,
                \<lparr> user_pk = 5, user_age_group_id = Some 7 \<rparr>,
                \<lparr> user_pk = 6, user_age_group_id = Some 7 \<rparr>],
       contents = [item_loops, item_variables, item_lists],
       progress =
         [\<lparr> user_id = 4, content_id = Some 10, challenge_id = None, completion_percentage = 100 \<rparr>,
          \<lparr> user_id = 4, content_id = Some 11, challenge_id = None, completion_percentage = 95 \<rparr>,
          \<lparr> user_id = 4, content_id = None, challenge_id = Some 5, completion_percentage = 90 \<rparr>,
          \<lparr> user_id = 4, content_id = None, challenge_id = Some 6, completion_percentage = 80 \<rparr>,
          \<lparr> user_id = 4, content_id = Some 13, challenge_id = None, completion_percentage = 50 \<rparr>,
          \<lparr> user_id = 5, content_id = None, challenge_id = Some 5, completion_percentage = 100 \<rparr>,
          \<lparr> user_id = 5, content_id = None, challenge_id = Some 6, completion_percentage = 95 \<rparr>,
          \<lparr> user_id = 5, content_id = Some 10, challenge_id = None, completion_percentage = 60 \<rparr>,
          \<lparr> user_id = 6, content_id = Some 10, challenge_id = None, completion_percentage = 10 \<rparr>,
          \<lparr> user_id = 6, content_id = Some 11, challenge_id = None, completion_percentage = 74 \<rparr>],
       available = True \<rparr>"

text \<open>The catalog after an editor has lowered the difficulty of item 10 to 2.\<close>

definition edited_db :: database where
  "edited_db =
     demo_db\<lparr> contents := (contents demo_db)[0 := item_loops\<lparr> difficulty_base := 2 \<rparr>] \<rparr>"

text \<open>
  Four providers: one whose transport fails, one that answers with labelled fields, one
  that answers with a sentence, and one that answers with white space only.
\<close>

definition failing_adapter :: adapter where
  "failing_adapter = \<lparr> adapter_cls = OpenAIAdapter, transport = (\<lambda>req. None) \<rparr>"

definition rewritten_reply :: string where
  "rewritten_reply = ''Title: Easy loops'' @ [newline] @ ''Description: Do it again''"

definition rewriting_adapter :: adapter where
  "rewriting_adapter =
     \<lparr> adapter_cls = OpenAIAdapter, transport = (\<lambda>req. Some rewritten_reply) \<rparr>"

definition good_adapter :: adapter where
  "good_adapter =
     \<lparr> adapter_cls = OpenAIAdapter, transport = (\<lambda>req. Some ''A loop is a carousel. '') \<rparr>"

definition silent_adapter :: adapter where
  "silent_adapter = \<lparr> adapter_cls = OpenAIAdapter, transport = (\<lambda>req. Some ''   '') \<rparr>"

text \<open>The cache after item 10 was adapted to difficulty 2 at time 0.\<close>

definition cache_after_rewrite :: cache where
  "cache_after_rewrite =
     fst (snd (adapt_content_difficulty demo_db (Inr rewriting_adapter) 0 empty_cache 10 2))"

text \<open>
  The cache after an explanation of loops was generated at time 0, with an empty curated
  file, and the curated file after an entry for loops was added later.
\<close>

definition cache_after_generation :: cache where
  "cache_after_generation =
     fst (snd (generate_themed_explanation (Some []) (Inr good_adapter) 0 empty_cache
                 ''loops'' ''space'' None None))"

definition curated_later :: curated_file where
  "curated_later =
     snd (add_curated_explanation (Some []) ''loops'' ''space'' ''Kids 5-8''
            ''Loops are orbits.'')"

text \<open>The cache after the provider answered with white space at time 0.\<close>

definition cache_after_silence :: cache where
  "cache_after_silence =
     fst (snd (generate_themed_explanation (Some []) (Inr silent_adapter) 0 empty_cache
                 ''loops'' ''space'' None None))"

section \<open>Results about the model information\<close>

lemma MockAdapter_not_global: "''MockAdapter'' \<notin> set utils_globals"
  by (simp add: utils_globals_def)

text \<open>
  Claim C10. Whatever adapter is active, the mock variant included, \<open>get_model_info\<close>
  reports \<open>is_mock = False\<close>: the name \<open>MockAdapter\<close> is not bound in the globals of
  utils.py, so the class of the instance is never inspected. The reported \<open>adapter_type\<close>
  is still the class name of the instance.
\<close>

theorem get_model_info_never_mock:
  "is_mock (get_model_info a) = False
   \<and> adapter_type (get_model_info a) = class_name (adapter_cls a)"
  by (simp add: get_model_info_def MockAdapter_not_global)

theorem get_model_info_never_mock_witness:
  "is_mock (get_model_info \<lparr> adapter_cls = MockAdapter, transport = (\<lambda>r. Some ''ok'') \<rparr>) = False
   \<and> adapter_type (get_model_info \<lparr> adapter_cls = MockAdapter, transport = (\<lambda>r. Some ''ok'') \<rparr>)
       = ''MockAdapter''"
  using get_model_info_never_mock [of "\<lparr> adapter_cls = MockAdapter, transport = (\<lambda>r. Some ''ok'') \<rparr>"]
  by simp

section \<open>Evaluating the sample data\<close>

lemma Content_get_loops: "Content_get demo_db 10 = Inr item_loops"
  by (simp add: Content_get_def demo_db_def item_loops_def)

lemma Content_get_edited: "Content_get edited_db 10 = Inr (item_loops\<lparr> difficulty_base := 2 \<rparr>)"
  by (simp add: Content_get_def edited_db_def demo_db_def item_loops_def)

lemma str_int_10: "str_int 10 = ''10''"
  by (simp add: str_int_def str_nat.simps digit_char_def)

lemma str_int_2: "str_int 2 = ''2''"
  by (simp add: str_int_def str_nat.simps digit_char_def)

lemma str_int_4: "str_int 4 = ''4''"
  by (simp add: str_int_def str_nat.simps digit_char_def)

lemma key_10_2: "adaptation_cache_key 10 2 = ''adapted_content:10:2''"
  by (simp add: adaptation_cache_key_def str_int_10 str_int_2)

lemma key_10_4: "adaptation_cache_key 10 4 = ''adapted_content:10:4''"
  by (simp add: adaptation_cache_key_def str_int_10 str_int_4)

lemma key_loops:
  "explanation_cache_key ''loops'' ''space'' None = ''themed_explanation:loops:space:None''"
  by (simp add: explanation_cache_key_def)

lemma lower_loops: "lower ''loops'' = ''loops''"
  by code_simp

lemma lower_Loops: "lower ''Loops'' = ''loops''"
  by code_simp

lemma empty_cache_miss: "cache_get (adaptations empty_cache) now key = None"
  by (simp add: empty_cache_def cache_get_def)

lemma empty_cache_miss_explanation: "cache_get (explanations empty_cache) now key = None"
  by (simp add: empty_cache_def cache_get_def)

lemma generate_text_good: "generate_text good_adapter req = ''A loop is a carousel.''"
  by (simp add: generate_text_def good_adapter_def strip_def isspace_def)

lemma generate_text_silent: "generate_text silent_adapter req = []"
  by (simp add: generate_text_def silent_adapter_def strip_def isspace_def)

lemma strip_rewritten_reply: "strip rewritten_reply = rewritten_reply"
  by (simp add: rewritten_reply_def strip_def isspace_def newline_def)

lemma generate_text_rewriting: "generate_text rewriting_adapter req = rewritten_reply"
  by (simp add: generate_text_def rewriting_adapter_def strip_rewritten_reply)

lemma rewriting_title: "re_search ''Title'' False rewritten_reply = Some ''Easy loops''"
  by (simp add: rewritten_reply_def match_here_def is_separator_def isspace_def newline_def)

lemma rewriting_description:
  "re_search ''Description'' True rewritten_reply = Some ''Do it again''"
  by (simp add: rewritten_reply_def match_here_def is_separator_def isspace_def newline_def)

lemma curated_later_eq:
  "curated_later
     = Some [\<lparr> entry_concept = ''loops'', entry_theme = ''space'',
               entry_age_group = ''Kids 5-8'', entry_explanation = ''Loops are orbits.'' \<rparr>]"
  by (simp add: curated_later_def add_curated_explanation_def)

section \<open>Results about the cache\<close>

lemma cache_get_set:
  "now' < now + timeout \<Longrightarrow> cache_get (cache_set m now key v timeout) now' key = Some v"
  by (simp add: cache_get_def cache_set_def)

lemma explanations_store_explanation:
  "explanations (store_explanation c now key s)
     = cache_set (explanations c) now key s CACHE_DURATION"
  by (simp add: store_explanation_def)

lemma adaptations_store_adaptation:
  "adaptations (store_adaptation c now key d)
     = cache_set (adaptations c) now key (json_dumps d) CACHE_DURATION"
  by (simp add: store_adaptation_def)

lemma json_roundtrip: "json_loads (json_dumps d) = d"
  by (simp add: json_dumps_def)

section \<open>Results about content adaptation\<close>

lemma placeholder_no_title: "re_search ''Title'' False placeholder = None"
  by (simp add: placeholder_def match_here_def)

lemma placeholder_no_description: "re_search ''Description'' True placeholder = None"
  by (simp add: placeholder_def match_here_def)

lemma generate_text_failure: "transport a req = None \<Longrightarrow> generate_text a req = placeholder"
  by (simp add: generate_text_def)

lemma adapt_hit:
  assumes "Content_get db cid = Inr c"
    and "cache_get (adaptations ch) now (adaptation_cache_key cid target_difficulty) = Some j"
  shows "adapt_content_difficulty db backend now ch cid target_difficulty
           = (json_loads j, ch, [])"
  using assms by (simp add: adapt_content_difficulty_def adapt_body_def)

lemma adapt_miss_same:
  assumes "Content_get db cid = Inr c"
    and "cache_get (adaptations ch) now (adaptation_cache_key cid target_difficulty) = None"
    and "difficulty_base c = target_difficulty"
  shows "adapt_content_difficulty db backend now ch cid target_difficulty
           = (unchanged_result c,
              store_adaptation ch now (adaptation_cache_key cid target_difficulty)
                (unchanged_result c),
              [])"
  using assms
  by (simp add: adapt_content_difficulty_def adapt_body_def unchanged_result_def Let_def
      store_adaptation_def)

lemma adapt_miss_backend:
  assumes "Content_get db cid = Inr c"
    and "cache_get (adaptations ch) now (adaptation_cache_key cid target_difficulty) = None"
    and "difficulty_base c \<noteq> target_difficulty"
  shows "\<exists>d. adapt_content_difficulty db (Inr a) now ch cid target_difficulty
           = (d, store_adaptation ch now (adaptation_cache_key cid target_difficulty) d,
              [adaptation_request c target_difficulty])"
  using assms
  by (simp add: adapt_content_difficulty_def adapt_body_def adaptation_request_def Let_def
      store_adaptation_def)

lemma adapt_miss_raised:
  assumes "Content_get db cid = Inr c"
    and "cache_get (adaptations ch) now (adaptation_cache_key cid target_difficulty) = None"
    and "difficulty_base c \<noteq> target_difficulty"
  shows "adapt_content_difficulty db (Inl e) now ch cid target_difficulty
           = (error_result e c, ch, [])"
  using assms
  by (simp add: adapt_content_difficulty_def adapt_body_def error_result_def)

lemma adapt_miss_failure:
  assumes "Content_get db cid = Inr c"
    and "cache_get (adaptations ch) now (adaptation_cache_key cid target_difficulty) = None"
    and "difficulty_base c \<noteq> target_difficulty"
    and "transport a (adaptation_request c target_difficulty) = None"
  shows "adapt_content_difficulty db (Inr a) now ch cid target_difficulty
           = (degraded_result c target_difficulty placeholder,
              store_adaptation ch now (adaptation_cache_key cid target_difficulty)
                (degraded_result c target_difficulty placeholder),
              [adaptation_request c target_difficulty])"
  using assms
  by (simp add: adapt_content_difficulty_def adapt_body_def adaptation_request_def Let_def
      store_adaptation_def degraded_result_def generate_text_failure placeholder_no_title
      placeholder_no_description)

lemma adapt_rewrite_loops:
  "adapt_content_difficulty demo_db (Inr rewriting_adapter) 0 empty_cache 10 2
     = ([(''title'', PyStr ''Easy loops''), (''description'', PyStr ''Do it again''),
         (''original_difficulty'', PyInt 4), (''target_difficulty'', PyInt 2),
         (''adapted'', PyBool True)],
        store_adaptation empty_cache 0 ''adapted_content:10:2''
          [(''title'', PyStr ''Easy loops''), (''description'', PyStr ''Do it again''),
           (''original_difficulty'', PyInt 4), (''target_difficulty'', PyInt 2),
           (''adapted'', PyBool True)],
        [adaptation_request item_loops 2])"
  by (simp add: adapt_content_difficulty_def adapt_body_def Content_get_loops
      empty_cache_miss Let_def generate_text_rewriting rewriting_title rewriting_description
      key_10_2 store_adaptation_def adaptation_request_def)
    (simp add: item_loops_def)

lemma cache_after_rewrite_eq:
  "cache_after_rewrite
     = store_adaptation empty_cache 0 ''adapted_content:10:2''
         [(''title'', PyStr ''Easy loops''), (''description'', PyStr ''Do it again''),
          (''original_difficulty'', PyInt 4), (''target_difficulty'', PyInt 2),
          (''adapted'', PyBool True)]"
  by (simp add: cache_after_rewrite_def adapt_rewrite_loops)

lemma cache_after_rewrite_hit:
  "cache_get (adaptations cache_after_rewrite) 3600 ''adapted_content:10:2''
     = Some (json_dumps
               [(''title'', PyStr ''Easy loops''), (''description'', PyStr ''Do it again''),
                (''original_difficulty'', PyInt 4), (''target_difficulty'', PyInt 2),
                (''adapted'', PyBool True)])"
  by (simp add: cache_after_rewrite_eq adaptations_store_adaptation cache_get_set
      CACHE_DURATION_def)

text \<open>
  Claim C1, as amended. Take a content item that exists, a target difficulty other than
  its own, and no live cache entry for the pair. When the transport call of the backend
  fails, \<open>generate_text\<close> returns its fixed sentence, and \<open>adapt_content_difficulty\<close>
  returns \<open>adapted = True\<close> with the original title, that sentence as description and
  no error field, stores this result in the cache and has sent one request. When
  obtaining the adapter raises, it returns \<open>adapted = False\<close> with a populated error
  field and the title of the content under \<open>original_title\<close>, leaves the cache as it
  was and sends nothing. Neither case raises.
\<close>

theorem adapt_on_backend_failure:
  assumes found: "Content_get db cid = Inr c"
    and differs: "difficulty_base c \<noteq> target_difficulty"
    and miss: "cache_get (adaptations ch) now (adaptation_cache_key cid target_difficulty) = None"
  shows "(transport a (adaptation_request c target_difficulty) = None \<longrightarrow>
            generate_text a (adaptation_request c target_difficulty) = placeholder
            \<and> adapt_content_difficulty db (Inr a) now ch cid target_difficulty
                = (degraded_result c target_difficulty placeholder,
                   store_adaptation ch now (adaptation_cache_key cid target_difficulty)
                     (degraded_result c target_difficulty placeholder),
                   [adaptation_request c target_difficulty]))
         \<and> adapt_content_difficulty db (Inl e) now ch cid target_difficulty
             = (error_result e c, ch, [])
         \<and> map_of (error_result e c) ''adapted'' = Some (PyBool False)
         \<and> map_of (error_result e c) ''original_title'' = Some (PyStr (title c))
         \<and> (\<exists>msg. map_of (error_result e c) ''error'' = Some (PyStr msg) \<and> msg \<noteq> [])"
  using adapt_miss_failure [OF found miss differs] adapt_miss_raised [OF found miss differs]
  by (simp add: generate_text_failure error_result_def)

theorem adapt_on_backend_failure_witness:
  "Content_get demo_db 10 = Inr item_loops
   \<and> difficulty_base item_loops = 4
   \<and> cache_get (adaptations empty_cache) 0 (adaptation_cache_key 10 2) = None
   \<and> transport failing_adapter (adaptation_request item_loops 2) = None
   \<and> adapt_content_difficulty demo_db (Inr failing_adapter) 0 empty_cache 10 2
       = (degraded_result item_loops 2 placeholder,
          store_adaptation empty_cache 0 (adaptation_cache_key 10 2)
            (degraded_result item_loops 2 placeholder),
          [adaptation_request item_loops 2])
   \<and> adapt_content_difficulty demo_db (Inl (ValueError ''OpenAI API key not found''))
         0 empty_cache 10 2
       = (error_result (ValueError ''OpenAI API key not found'') item_loops,
          empty_cache, [])"
proof -
  have diff: "difficulty_base item_loops = 4" by (simp add: item_loops_def)
  then have differs: "difficulty_base item_loops \<noteq> 2" by simp
  have fails: "transport failing_adapter (adaptation_request item_loops 2) = None"
    by (simp add: failing_adapter_def)
  from adapt_on_backend_failure [where a = failing_adapter and now = 0
        and e = "ValueError ''OpenAI API key not found''",
      OF Content_get_loops differs empty_cache_miss]
    Content_get_loops diff fails empty_cache_miss
  show ?thesis by simp
qed

theorem adapt_on_backend_failure_counterexample:
  "Content_get demo_db 10 = Inr item_loops
   \<and> difficulty_base item_loops = 4
   \<and> description item_loops = ''Repeat steps''
   \<and> transport failing_adapter (adaptation_request item_loops 2) = None
   \<and> map_of (fst (adapt_content_difficulty demo_db (Inr failing_adapter) 0 empty_cache 10 2))
       ''adapted'' = Some (PyBool True)
   \<and> map_of (fst (adapt_content_difficulty demo_db (Inr failing_adapter) 0 empty_cache 10 2))
       ''description'' = Some (PyStr ''I couldn't generate a response at this time.'')
   \<and> map_of (fst (adapt_content_difficulty demo_db (Inr failing_adapter) 0 empty_cache 10 2))
       ''error'' = None"
proof -
  have diff: "difficulty_base item_loops = 4" by (simp add: item_loops_def)
  then have differs: "difficulty_base item_loops \<noteq> 2" by simp
  have fails: "transport failing_adapter (adaptation_request item_loops 2) = None"
    by (simp add: failing_adapter_def)
  have desc: "description item_loops = ''Repeat steps''" by (simp add: item_loops_def)
  from adapt_miss_failure [where now = 0, OF Content_get_loops empty_cache_miss differs fails]
    Content_get_loops diff fails desc
  show ?thesis by (simp add: degraded_result_def placeholder_def)
qed

text \<open>
  Claim C3, as amended. Take a content item that exists and a target difficulty equal
  to its own. When the cache holds no live entry for the pair, \<open>adapt_content_difficulty\<close>
  returns the item's own title and description with \<open>adapted = False\<close> and stores that
  result; when the cache holds a live entry, it returns the stored payload. In both cases
  no request is sent to the backend, whether an adapter is available or not.
\<close>

theorem adapt_same_difficulty:
  assumes found: "Content_get db cid = Inr c"
    and same: "difficulty_base c = target_difficulty"
  shows "(cache_get (adaptations ch) now (adaptation_cache_key cid target_difficulty) = None \<longrightarrow>
            adapt_content_difficulty db backend now ch cid target_difficulty
              = (unchanged_result c,
                 store_adaptation ch now (adaptation_cache_key cid target_difficulty)
                   (unchanged_result c),
                 []))
         \<and> (\<forall>j. cache_get (adaptations ch) now (adaptation_cache_key cid target_difficulty) = Some j \<longrightarrow>
               adapt_content_difficulty db backend now ch cid target_difficulty
                 = (json_loads j, ch, []))
         \<and> snd (snd (adapt_content_difficulty db backend now ch cid target_difficulty)) = []
         \<and> map_of (unchanged_result c) ''title'' = Some (PyStr (title c))
         \<and> map_of (unchanged_result c) ''description'' = Some (PyStr (description c))
         \<and> map_of (unchanged_result c) ''adapted'' = Some (PyBool False)"
proof (cases "cache_get (adaptations ch) now (adaptation_cache_key cid target_difficulty)")
  case None
  with adapt_miss_same [where backend = backend, OF found None same] show ?thesis
    by (simp add: unchanged_result_def)
next
  case (Some j)
  with adapt_hit [where backend = backend, OF found Some] show ?thesis
    by (simp add: unchanged_result_def)
qed

theorem adapt_same_difficulty_witness:
  "Content_get demo_db 10 = Inr item_loops
   \<and> difficulty_base item_loops = 4
   \<and> cache_get (adaptations empty_cache) 0 (adaptation_cache_key 10 4) = None
   \<and> adapt_content_difficulty demo_db (Inl (ValueError ''OpenAI API key not found''))
         0 empty_cache 10 4
       = (unchanged_result item_loops,
          store_adaptation empty_cache 0 (adaptation_cache_key 10 4) (unchanged_result item_loops),
          [])
   \<and> cache_get
         (adaptations (store_adaptation empty_cache 0 (adaptation_cache_key 10 4)
                         (unchanged_result item_loops)))
         60 (adaptation_cache_key 10 4) = Some (json_dumps (unchanged_result item_loops))
   \<and> adapt_content_difficulty demo_db (Inr failing_adapter) 60
         (store_adaptation empty_cache 0 (adaptation_cache_key 10 4) (unchanged_result item_loops))
         10 4
       = (unchanged_result item_loops,
          store_adaptation empty_cache 0 (adaptation_cache_key 10 4) (unchanged_result item_loops),
          [])"
proof -
  have diff: "difficulty_base item_loops = 4" by (simp add: item_loops_def)
  have hit: "cache_get
         (adaptations (store_adaptation empty_cache 0 (adaptation_cache_key 10 4)
                         (unchanged_result item_loops)))
         60 (adaptation_cache_key 10 4) = Some (json_dumps (unchanged_result item_loops))"
    by (simp add: adaptations_store_adaptation cache_get_set CACHE_DURATION_def)
  from adapt_same_difficulty [where ch = empty_cache and now = 0
        and backend = "Inl (ValueError ''OpenAI API key not found'')",
      OF Content_get_loops diff]
    adapt_same_difficulty [where ch = "store_adaptation empty_cache 0 (adaptation_cache_key 10 4)
          (unchanged_result item_loops)" and now = 60 and backend = "Inr failing_adapter",
      OF Content_get_loops diff]
    Content_get_loops diff hit empty_cache_miss
  show ?thesis by (simp add: json_roundtrip)
qed

theorem adapt_same_difficulty_counterexample:
  "Content_get edited_db 10 = Inr (item_loops\<lparr> difficulty_base := 2 \<rparr>)
   \<and> difficulty_base (item_loops\<lparr> difficulty_base := 2 \<rparr>) = 2
   \<and> title (item_loops\<lparr> difficulty_base := 2 \<rparr>) = ''Loops''
   \<and> cache_after_rewrite
       = fst (snd (adapt_content_difficulty demo_db (Inr rewriting_adapter) 0 empty_cache 10 2))
   \<and> map_of (fst (adapt_content_difficulty edited_db (Inr rewriting_adapter) 3600
                     cache_after_rewrite 10 2)) ''adapted'' = Some (PyBool True)
   \<and> map_of (fst (adapt_content_difficulty edited_db (Inr rewriting_adapter) 3600
                     cache_after_rewrite 10 2)) ''title'' = Some (PyStr ''Easy loops'')"
proof -
  have hit: "cache_get (adaptations cache_after_rewrite) 3600 (adaptation_cache_key 10 2)
     = Some (json_dumps
               [(''title'', PyStr ''Easy loops''), (''description'', PyStr ''Do it again''),
                (''original_difficulty'', PyInt 4), (''target_difficulty'', PyInt 2),
                (''adapted'', PyBool True)])"
    by (simp add: key_10_2 cache_after_rewrite_hit)
  have t: "title (item_loops\<lparr> difficulty_base := 2 \<rparr>) = ''Loops''"
    by (simp add: item_loops_def)
  from adapt_hit [where backend = "Inr rewriting_adapter", OF Content_get_edited hit]
    Content_get_edited t
  show ?thesis by (simp add: cache_after_rewrite_def json_roundtrip)
qed

section \<open>Results about themed explanations\<close>

lemma themed_hit:
  assumes "when_truthy (cache_get (explanations c) now
                          (explanation_cache_key concept theme age_group)) = Some s"
  shows "generate_themed_explanation curated backend now c concept theme age_group base_explanation
           = (s, c, [])"
  using assms by (simp add: generate_themed_explanation_def Let_def)

lemma themed_curated:
  assumes "when_truthy (cache_get (explanations c) now
                          (explanation_cache_key concept theme age_group)) = None"
    and "when_truthy (get_curated_explanation curated concept theme age_group) = Some s"
  shows "generate_themed_explanation curated backend now c concept theme age_group base_explanation
           = (s, store_explanation c now (explanation_cache_key concept theme age_group) s, [])"
  using assms
  by (simp add: generate_themed_explanation_def Let_def store_explanation_def)

lemma themed_generated:
  assumes "when_truthy (cache_get (explanations c) now
                          (explanation_cache_key concept theme age_group)) = None"
    and "when_truthy (get_curated_explanation curated concept theme age_group) = None"
  shows "generate_themed_explanation curated (Inr a) now c concept theme age_group base_explanation
           = (generate_text a (explanation_request concept theme age_group base_explanation),
              store_explanation c now (explanation_cache_key concept theme age_group)
                (generate_text a (explanation_request concept theme age_group base_explanation)),
              [explanation_request concept theme age_group base_explanation])"
  using assms
  by (simp add: generate_themed_explanation_def Let_def store_explanation_def
      explanation_request_def)

lemma no_curated_in_empty_file:
  "when_truthy (get_curated_explanation (Some []) concept theme age) = None"
  by (simp add: get_curated_explanation_def)

lemma empty_cache_no_explanation:
  "when_truthy (cache_get (explanations empty_cache) now key) = None"
  by (simp add: empty_cache_miss_explanation)

lemma themed_good_first:
  "generate_themed_explanation (Some []) (Inr good_adapter) 0 empty_cache
     ''loops'' ''space'' None None
   = (''A loop is a carousel.'',
      store_explanation empty_cache 0 ''themed_explanation:loops:space:None''
        ''A loop is a carousel.'',
      [explanation_request ''loops'' ''space'' None None])"
  using themed_generated [where c = empty_cache and now = 0 and concept = "''loops''"
      and theme = "''space''" and age_group = None and curated = "Some []" and a = good_adapter
      and base_explanation = None, OF empty_cache_no_explanation no_curated_in_empty_file]
  by (simp add: generate_text_good key_loops)

lemma cache_after_generation_eq:
  "cache_after_generation
     = store_explanation empty_cache 0 ''themed_explanation:loops:space:None''
         ''A loop is a carousel.''"
  by (simp add: cache_after_generation_def themed_good_first)

lemma cache_after_generation_hit:
  "when_truthy (cache_get (explanations cache_after_generation) 3600
                  (explanation_cache_key ''loops'' ''space'' None))
     = Some ''A loop is a carousel.''"
  by (simp add: cache_after_generation_eq explanations_store_explanation cache_get_set
      CACHE_DURATION_def key_loops)

lemma themed_silent_first:
  "generate_themed_explanation (Some []) (Inr silent_adapter) 0 empty_cache
     ''loops'' ''space'' None None
   = ([], store_explanation empty_cache 0 ''themed_explanation:loops:space:None'' [],
      [explanation_request ''loops'' ''space'' None None])"
  using themed_generated [where c = empty_cache and now = 0 and concept = "''loops''"
      and theme = "''space''" and age_group = None and curated = "Some []" and a = silent_adapter
      and base_explanation = None, OF empty_cache_no_explanation no_curated_in_empty_file]
  by (simp add: generate_text_silent key_loops)

lemma cache_after_silence_eq:
  "cache_after_silence
     = store_explanation empty_cache 0 ''themed_explanation:loops:space:None'' []"
  by (simp add: cache_after_silence_def themed_silent_first)

lemma cache_after_silence_entry:
  "cache_get (explanations cache_after_silence) 1
     (explanation_cache_key ''loops'' ''space'' None) = Some []"
  by (simp add: cache_after_silence_eq explanations_store_explanation cache_get_set
      CACHE_DURATION_def key_loops)

lemma curated_later_loops:
  "get_curated_explanation curated_later ''loops'' ''space'' None = Some ''Loops are orbits.''"
  by (simp add: curated_later_eq get_curated_explanation_def entry_matches_def lower_loops)

lemma curated_later_Loops_kids:
  "get_curated_explanation curated_later ''Loops'' ''space'' (Some ''Kids 5-8'')
     = Some ''Loops are orbits.''"
  by (simp add: curated_later_eq get_curated_explanation_def entry_matches_def lower_loops
      lower_Loops)

text \<open>
  Claim C2, as amended. Take a concept, theme and age group for which the curated file
  has a matching entry whose text is not empty (the first match in the order of the
  file). When the cache holds no live, non-empty entry under the key of the three,
  \<open>generate_themed_explanation\<close> returns exactly the curated text and stores it in the
  cache; when the cache holds one, it returns the cached text. In both cases no request
  is sent to the backend.
\<close>

theorem curated_explanation_first:
  assumes cur: "get_curated_explanation curated concept theme age_group = Some s"
    and nonempty: "s \<noteq> []"
  shows "(when_truthy (cache_get (explanations c) now
                         (explanation_cache_key concept theme age_group)) = None \<longrightarrow>
            generate_themed_explanation curated backend now c concept theme age_group
                base_explanation
              = (s, store_explanation c now (explanation_cache_key concept theme age_group) s,
                 []))
         \<and> (\<forall>t. when_truthy (cache_get (explanations c) now
                              (explanation_cache_key concept theme age_group)) = Some t \<longrightarrow>
            generate_themed_explanation curated backend now c concept theme age_group
                base_explanation
              = (t, c, []))
         \<and> snd (snd (generate_themed_explanation curated backend now c concept theme age_group
                        base_explanation)) = []"
proof (cases "when_truthy (cache_get (explanations c) now
                             (explanation_cache_key concept theme age_group))")
  case None
  from cur nonempty
  have "when_truthy (get_curated_explanation curated concept theme age_group) = Some s"
    by simp
  from themed_curated [where backend = backend and base_explanation = base_explanation,
      OF None this] None
  show ?thesis by simp
next
  case (Some t)
  from themed_hit [where curated = curated and backend = backend
      and base_explanation = base_explanation, OF Some] Some
  show ?thesis by simp
qed

theorem curated_explanation_first_witness:
  "get_curated_explanation curated_later ''Loops'' ''space'' (Some ''Kids 5-8'')
     = Some ''Loops are orbits.''
   \<and> when_truthy (cache_get (explanations empty_cache) 0
                     (explanation_cache_key ''Loops'' ''space'' (Some ''Kids 5-8''))) = None
   \<and> generate_themed_explanation curated_later (Inr failing_adapter) 0 empty_cache
         ''Loops'' ''space'' (Some ''Kids 5-8'') None
       = (''Loops are orbits.'',
          store_explanation empty_cache 0
            (explanation_cache_key ''Loops'' ''space'' (Some ''Kids 5-8''))
            ''Loops are orbits.'',
          [])
   \<and> when_truthy (cache_get (explanations cache_after_generation) 3600
                     (explanation_cache_key ''loops'' ''space'' None))
       = Some ''A loop is a carousel.''
   \<and> generate_themed_explanation curated_later (Inr good_adapter) 3600
         cache_after_generation ''loops'' ''space'' None None
       = (''A loop is a carousel.'', cache_after_generation, [])"
proof -
  have ne: "''Loops are orbits.'' \<noteq> []" by simp
  from curated_explanation_first [where c = empty_cache and now = 0
        and backend = "Inr failing_adapter" and base_explanation = None,
      OF curated_later_Loops_kids ne]
    curated_explanation_first [where c = cache_after_generation and now = 3600
        and backend = "Inr good_adapter" and base_explanation = None,
      OF curated_later_loops ne]
    curated_later_Loops_kids cache_after_generation_hit empty_cache_no_explanation
  show ?thesis by simp
qed

theorem curated_explanation_first_counterexample:
  "cache_after_generation
     = fst (snd (generate_themed_explanation (Some []) (Inr good_adapter) 0 empty_cache
                   ''loops'' ''space'' None None))
   \<and> curated_later
       = snd (add_curated_explanation (Some []) ''loops'' ''space'' ''Kids 5-8''
                ''Loops are orbits.'')
   \<and> get_curated_explanation curated_later ''loops'' ''space'' None = Some ''Loops are orbits.''
   \<and> fst (generate_themed_explanation curated_later (Inr good_adapter) 3600
            cache_after_generation ''loops'' ''space'' None None) = ''A loop is a carousel.''"
proof -
  from themed_hit [where curated = curated_later and backend = "Inr good_adapter"
      and base_explanation = None, OF cache_after_generation_hit]
  have second: "fst (generate_themed_explanation curated_later (Inr good_adapter) 3600
            cache_after_generation ''loops'' ''space'' None None) = ''A loop is a carousel.''"
    by simp
  have c: "cache_after_generation
     = fst (snd (generate_themed_explanation (Some []) (Inr good_adapter) 0 empty_cache
                   ''loops'' ''space'' None None))"
    by (simp add: cache_after_generation_def)
  have f: "curated_later
       = snd (add_curated_explanation (Some []) ''loops'' ''space'' ''Kids 5-8''
                ''Loops are orbits.'')"
    by (simp add: curated_later_def)
  from c f curated_later_loops second show ?thesis by blast
qed

section \<open>Results about two calls in a row\<close>

lemma themed_first_call_stores:
  assumes miss: "when_truthy (cache_get (explanations c) t1
                                (explanation_cache_key concept theme age_group)) = None"
    and normal: "(\<exists>s. when_truthy (get_curated_explanation curated concept theme age_group)
                        = Some s)
                 \<or> backend = Inr a"
    and first: "generate_themed_explanation curated backend t1 c concept theme age_group
                  base_explanation = (r1, c1, calls1)"
  shows "c1 = store_explanation c t1 (explanation_cache_key concept theme age_group) r1"
proof (cases "when_truthy (get_curated_explanation curated concept theme age_group)")
  case (Some s)
  from themed_curated [where backend = backend and base_explanation = base_explanation,
      OF miss Some] first
  show ?thesis by auto
next
  case None
  with normal have "backend = Inr a" by simp
  with themed_generated [where a = a and base_explanation = base_explanation, OF miss None] first
  show ?thesis by auto
qed

lemma themed_second_call:
  assumes "r1 \<noteq> []" and "t2 < t1 + CACHE_DURATION"
  shows "generate_themed_explanation curated' backend' t2
           (store_explanation c t1 (explanation_cache_key concept theme age_group) r1)
           concept theme age_group base_explanation
         = (r1, store_explanation c t1 (explanation_cache_key concept theme age_group) r1, [])"
proof -
  let ?c1 = "store_explanation c t1 (explanation_cache_key concept theme age_group) r1"
  have "when_truthy (cache_get (explanations ?c1) t2
                       (explanation_cache_key concept theme age_group)) = Some r1"
    using assms by (simp add: explanations_store_explanation cache_get_set)
  from themed_hit [where curated = curated' and backend = backend'
      and base_explanation = base_explanation, OF this]
  show ?thesis .
qed

lemma adapt_first_call_stores:
  assumes found: "Content_get db cid = Inr c"
    and miss: "cache_get (adaptations ch) t1 (adaptation_cache_key cid target_difficulty) = None"
    and normal: "difficulty_base c = target_difficulty \<or> backend = Inr a"
    and first: "adapt_content_difficulty db backend t1 ch cid target_difficulty = (r1, c1, calls1)"
  shows "c1 = store_adaptation ch t1 (adaptation_cache_key cid target_difficulty) r1"
proof (cases "difficulty_base c = target_difficulty")
  case True
  from adapt_miss_same [where backend = backend, OF found miss True] first show ?thesis
    by auto
next
  case False
  with normal have b: "backend = Inr a" by simp
  from adapt_miss_backend [where a = a, OF found miss False] first b show ?thesis by auto
qed

lemma adapt_second_call:
  assumes "Content_get db' cid = Inr c'" and "t2 < t1 + CACHE_DURATION"
  shows "adapt_content_difficulty db' backend' t2
           (store_adaptation ch t1 (adaptation_cache_key cid target_difficulty) r1)
           cid target_difficulty
         = (r1, store_adaptation ch t1 (adaptation_cache_key cid target_difficulty) r1, [])"
proof -
  have "cache_get
          (adaptations (store_adaptation ch t1 (adaptation_cache_key cid target_difficulty) r1))
          t2 (adaptation_cache_key cid target_difficulty) = Some (json_dumps r1)"
    using assms(2) by (simp add: adaptations_store_adaptation cache_get_set)
  from adapt_hit [where backend = backend', OF assms(1) this] show ?thesis
    by (simp add: json_roundtrip)
qed

text \<open>
  Claim C9, as amended. Take a first call that finds no live entry for its key (for a
  themed explanation: none that is not empty) and ends normally: a themed explanation
  that comes from the curated file or from an adapter and is not the empty text, or an
  adaptation of a content item that exists, for which an adapter was obtained when the
  target differs from the item's difficulty. A second call with the same parameters, made
  less than \<open>CACHE_DURATION\<close> seconds after the first on the cache the first call left,
  returns the same result, leaves the cache as it is and sends no request to the backend,
  whatever the curated file, the catalog entry and the backend are by then.
\<close>

theorem cache_idempotence:
  assumes window: "t2 < t1 + CACHE_DURATION"
  shows "(when_truthy (cache_get (explanations c) t1
                         (explanation_cache_key concept theme age_group)) = None
          \<and> ((\<exists>s. when_truthy (get_curated_explanation curated concept theme age_group)
                     = Some s)
              \<or> backend = Inr a)
          \<and> generate_themed_explanation curated backend t1 c concept theme age_group
                base_explanation = (r1, c1, calls1)
          \<and> r1 \<noteq> []
          \<longrightarrow> generate_themed_explanation curated' backend' t2 c1 concept theme age_group
                base_explanation = (r1, c1, []))
       \<and> (Content_get db cid = Inr item1
          \<and> cache_get (adaptations ch) t1 (adaptation_cache_key cid target_difficulty) = None
          \<and> (difficulty_base item1 = target_difficulty \<or> backend2 = Inr a2)
          \<and> adapt_content_difficulty db backend2 t1 ch cid target_difficulty = (d1, ch1, sent1)
          \<and> Content_get db' cid = Inr item2
          \<longrightarrow> adapt_content_difficulty db' backend2' t2 ch1 cid target_difficulty
                = (d1, ch1, []))"
proof (intro conjI impI)
  assume h: "when_truthy (cache_get (explanations c) t1
                         (explanation_cache_key concept theme age_group)) = None
          \<and> ((\<exists>s. when_truthy (get_curated_explanation curated concept theme age_group)
                     = Some s)
              \<or> backend = Inr a)
          \<and> generate_themed_explanation curated backend t1 c concept theme age_group
                base_explanation = (r1, c1, calls1)
          \<and> r1 \<noteq> []"
  then have "c1 = store_explanation c t1 (explanation_cache_key concept theme age_group) r1"
    using themed_first_call_stores by blast
  with h window
  show "generate_themed_explanation curated' backend' t2 c1 concept theme age_group
          base_explanation = (r1, c1, [])"
    by (simp add: themed_second_call)
next
  assume h: "Content_get db cid = Inr item1
          \<and> cache_get (adaptations ch) t1 (adaptation_cache_key cid target_difficulty) = None
          \<and> (difficulty_base item1 = target_difficulty \<or> backend2 = Inr a2)
          \<and> adapt_content_difficulty db backend2 t1 ch cid target_difficulty = (d1, ch1, sent1)
          \<and> Content_get db' cid = Inr item2"
  then have "ch1 = store_adaptation ch t1 (adaptation_cache_key cid target_difficulty) d1"
    using adapt_first_call_stores by blast
  with h window
  show "adapt_content_difficulty db' backend2' t2 ch1 cid target_difficulty = (d1, ch1, [])"
    by (simp add: adapt_second_call)
qed

theorem cache_idempotence_witness:
  "(3600 :: int) < 0 + CACHE_DURATION
   \<and> when_truthy (cache_get (explanations empty_cache) 0
                     (explanation_cache_key ''loops'' ''space'' None)) = None
   \<and> generate_themed_explanation (Some []) (Inr good_adapter) 0 empty_cache
         ''loops'' ''space'' None None
       = (''A loop is a carousel.'', cache_after_generation,
          [explanation_request ''loops'' ''space'' None None])
   \<and> generate_themed_explanation curated_later (Inr failing_adapter) 3600 cache_after_generation
         ''loops'' ''space'' None None
       = (''A loop is a carousel.'', cache_after_generation, [])
   \<and> Content_get demo_db 10 = Inr item_loops
   \<and> cache_get (adaptations empty_cache) 0 (adaptation_cache_key 10 2) = None
   \<and> fst (adapt_content_difficulty demo_db (Inr rewriting_adapter) 0 empty_cache 10 2)
       = [(''title'', PyStr ''Easy loops''), (''description'', PyStr ''Do it again''),
          (''original_difficulty'', PyInt 4), (''target_difficulty'', PyInt 2),
          (''adapted'', PyBool True)]
   \<and> Content_get edited_db 10 = Inr (item_loops\<lparr> difficulty_base := 2 \<rparr>)
   \<and> adapt_content_difficulty edited_db (Inr failing_adapter) 3600 cache_after_rewrite 10 2
       = ([(''title'', PyStr ''Easy loops''), (''description'', PyStr ''Do it again''),
           (''original_difficulty'', PyInt 4), (''target_difficulty'', PyInt 2),
           (''adapted'', PyBool True)],
          cache_after_rewrite, [])"
proof -
  have window: "(3600 :: int) < 0 + CACHE_DURATION" by (simp add: CACHE_DURATION_def)
  have first: "generate_themed_explanation (Some []) (Inr good_adapter) 0 empty_cache
         ''loops'' ''space'' None None
       = (''A loop is a carousel.'', cache_after_generation,
          [explanation_request ''loops'' ''space'' None None])"
    by (simp add: themed_good_first cache_after_generation_eq)
  have first2: "adapt_content_difficulty demo_db (Inr rewriting_adapter) 0 empty_cache 10 2
       = ([(''title'', PyStr ''Easy loops''), (''description'', PyStr ''Do it again''),
           (''original_difficulty'', PyInt 4), (''target_difficulty'', PyInt 2),
           (''adapted'', PyBool True)],
          cache_after_rewrite, [adaptation_request item_loops 2])"
    by (simp add: adapt_rewrite_loops cache_after_rewrite_eq)
  from cache_idempotence [where ?t1.0 = 0 and ?t2.0 = 3600,
      where c = empty_cache and concept = "''loops''" and theme = "''space''"
        and age_group = None and curated = "Some []" and backend = "Inr good_adapter"
        and a = good_adapter and base_explanation = None
        and ?r1.0 = "''A loop is a carousel.''" and ?c1.0 = cache_after_generation
        and ?calls1.0 = "[explanation_request ''loops'' ''space'' None None]"
        and curated' = curated_later and backend' = "Inr failing_adapter"
        and db = demo_db and cid = 10 and ?item1.0 = item_loops and ch = empty_cache
        and target_difficulty = 2 and ?backend2.0 = "Inr rewriting_adapter"
        and ?a2.0 = rewriting_adapter
        and ?d1.0 = "[(''title'', PyStr ''Easy loops''), (''description'', PyStr ''Do it again''),
           (''original_difficulty'', PyInt 4), (''target_difficulty'', PyInt 2),
           (''adapted'', PyBool True)]"
        and ?ch1.0 = cache_after_rewrite and ?sent1.0 = "[adaptation_request item_loops 2]"
        and db' = edited_db and ?item2.0 = "item_loops\<lparr> difficulty_base := 2 \<rparr>"
        and backend2' = "Inr failing_adapter",
      OF window]
    window first first2 Content_get_loops Content_get_edited empty_cache_no_explanation
  show ?thesis by (simp add: empty_cache_miss)
qed

theorem cache_idempotence_counterexample:
  "cache_after_silence
     = fst (snd (generate_themed_explanation (Some []) (Inr silent_adapter) 0 empty_cache
                   ''loops'' ''space'' None None))
   \<and> fst (generate_themed_explanation (Some []) (Inr silent_adapter) 0 empty_cache
            ''loops'' ''space'' None None) = []
   \<and> snd (snd (generate_themed_explanation (Some []) (Inr silent_adapter) 1 cache_after_silence
                  ''loops'' ''space'' None None))
       = [explanation_request ''loops'' ''space'' None None]"
proof -
  have miss: "when_truthy (cache_get (explanations cache_after_silence) 1
                             (explanation_cache_key ''loops'' ''space'' None)) = None"
    by (simp add: cache_after_silence_entry)
  from themed_generated [where c = cache_after_silence and now = 1 and concept = "''loops''"
      and theme = "''space''" and age_group = None and curated = "Some []" and a = silent_adapter
      and base_explanation = None, OF miss no_curated_in_empty_file]
  have second: "snd (snd (generate_themed_explanation (Some []) (Inr silent_adapter) 1
                  cache_after_silence ''loops'' ''space'' None None))
       = [explanation_request ''loops'' ''space'' None None]"
    by simp
  have first: "fst (generate_themed_explanation (Some []) (Inr silent_adapter) 0 empty_cache
            ''loops'' ''space'' None None) = []"
    by (simp add: themed_silent_first)
  have c: "cache_after_silence
     = fst (snd (generate_themed_explanation (Some []) (Inr silent_adapter) 0 empty_cache
                   ''loops'' ''space'' None None))"
    by (simp add: cache_after_silence_def)
  from c first second show ?thesis by blast
qed

section \<open>Results about recommendations\<close>

lemma precedes_iff_key: "precedes a b \<longleftrightarrow> order_key a \<le> order_key b"
  by (auto simp: precedes_def order_key_def less_eq_prod_def less_prod_def)

lemma sorted_wrt_precedes_sort: "sorted_wrt precedes (sort_key order_key xs)"
proof -
  have "sorted (map order_key (sort_key order_key xs))" by (rule sorted_sort_key)
  then show ?thesis
    by (simp add: sorted_map precedes_iff_key [abs_def])
qed

lemma sorted_wrt_take: "sorted_wrt P xs \<Longrightarrow> sorted_wrt P (take n xs)"
  by (metis append_take_drop_id sorted_wrt_append)

lemma take_keeps_strictly_earlier:
  assumes srt: "sorted_wrt P xs"
    and a: "a \<in> set xs" and b: "b \<in> set (take n xs)"
    and notba: "\<not> P b a"
  shows "a \<in> set (take n xs)"
proof -
  from a obtain i where i: "i < length xs" "xs ! i = a" by (auto simp: in_set_conv_nth)
  from b obtain j where j: "j < length xs" "j < n" "xs ! j = b"
    by (auto simp: in_set_conv_nth)
  have "\<not> j < i"
  proof
    assume "j < i"
    with srt i(1) have "P (xs ! j) (xs ! i)"
      unfolding sorted_wrt_iff_nth_less by blast
    with i j notba show False by simp
  qed
  then have "i \<le> j" by simp
  with j have "i < n" by simp
  with i show ?thesis by (auto simp: in_set_conv_nth)
qed

lemma recommended_rows_cases:
  "recommended_rows db uid count ctype = []
   \<or> (\<exists>u. User_get db uid = Inr u \<and> 0 \<le> count
        \<and> recommended_rows db uid count ctype
            = take (nat count) (recommended_content db uid (user_age_group_id u) ctype))"
  by (auto simp: recommended_rows_def recommendations_def split: sum.splits)

lemma recommended_rows_found:
  assumes "User_get db uid = Inr u" and "0 \<le> count"
  shows "recommended_rows db uid count ctype
           = take (nat count) (recommended_content db uid (user_age_group_id u) ctype)"
  using assms by (simp add: recommended_rows_def recommendations_def)

lemma recommended_content_sorted:
  "sorted_wrt precedes (recommended_content db uid age ctype)"
  by (simp add: recommended_content_def Let_def sorted_wrt_precedes_sort)

lemma recommended_rows_sorted: "sorted_wrt precedes (recommended_rows db uid count ctype)"
  using recommended_rows_cases [of db uid count ctype]
  by (auto intro!: sorted_wrt_take recommended_content_sorted)

lemma in_progress_annotate:
  "in_progress (annotate viewed c) = (if Some (content_pk c) \<in> set viewed then 10 else 0)"
  by (simp add: annotate_def sql_in_def)

lemma item_annotate: "item (annotate viewed c) = c"
  by (simp add: annotate_def)

lemma recommended_content_in_progress:
  "r \<in> set (recommended_content db uid age ctype) \<Longrightarrow>
   in_progress r = (if started db uid r then 10 else 0)"
  by (auto simp: recommended_content_def Let_def started_def in_progress_annotate item_annotate)

lemma recommended_rows_in_progress:
  assumes "r \<in> set (recommended_rows db uid count ctype)"
  shows "in_progress r = (if started db uid r then 10 else 0)"
proof -
  from recommended_rows_cases [of db uid count ctype] assms
  obtain u :: user
    where "r \<in> set (take (nat count) (recommended_content db uid (user_age_group_id u) ctype))"
    by auto
  then have "r \<in> set (recommended_content db uid (user_age_group_id u) ctype)"
    by (rule in_set_takeD)
  then show ?thesis by (rule recommended_content_in_progress)
qed

lemma started_strictly_precedes:
  assumes "in_progress a = 10" "in_progress b = 0"
  shows "precedes a b \<and> \<not> precedes b a"
  using assms by (simp add: precedes_def)

lemma format_rows:
  "get_personalized_recommendations db uid count ctype
     = map format_item (recommended_rows db uid count ctype)"
  by (simp add: get_personalized_recommendations_def recommended_rows_def split: sum.splits)

lemma User_get_1: "User_get demo_db 1 = Inr \<lparr> user_pk = 1, user_age_group_id = Some 7 \<rparr>"
  by (simp add: User_get_def demo_db_def)

lemma User_get_3: "User_get demo_db 3 = Inl (DoesNotExist ''User'')"
  by (simp add: User_get_def demo_db_def)

lemma demo_content:
  "recommended_content demo_db 1 (Some 7) None
     = [\<lparr> item = item_loops, in_progress = 10, relevance_score = 1 \<rparr>,
        \<lparr> item = item_variables, in_progress = 0, relevance_score = 5 \<rparr>,
        \<lparr> item = item_strings, in_progress = 0, relevance_score = 5 \<rparr>]"
  by (simp add: recommended_content_def demo_db_def completed_content_ids_def
      viewed_content_ids_def sql_in_def annotate_def order_key_def less_eq_prod_def
      less_prod_def item_loops_def item_variables_def item_functions_def item_lists_def
      item_strings_def)

lemma demo_rows:
  "recommended_rows demo_db 1 2 None
     = [\<lparr> item = item_loops, in_progress = 10, relevance_score = 1 \<rparr>,
        \<lparr> item = item_variables, in_progress = 0, relevance_score = 5 \<rparr>]"
  by (simp add: recommended_rows_found [OF User_get_1] demo_content)

lemma demo_viewed: "viewed_content_ids demo_db 1 = [Some 10, Some 13]"
  by (simp add: viewed_content_ids_def demo_db_def)

text \<open>
  Claim C4. The returned list is the formatted image of rows that are ordered by
  \<open>in_progress\<close> descending, then \<open>relevance_score\<close> descending, then
  \<open>difficulty_base\<close> ascending, then creation time descending; it has at most \<open>count\<close>
  entries (none when \<open>count\<close> is negative), and for a user that is found and a
  \<open>count\<close> that is not negative the rows are the first \<open>count\<close> of the ordered
  candidates. A row whose item the user has started stands before every row whose item
  the user has never seen, whatever their relevance scores; and when a never-seen item
  is in the list, so is every candidate that the user has started.
\<close>

theorem recommendations_ordered:
  "get_personalized_recommendations db uid count ctype
     = map format_item (recommended_rows db uid count ctype)
   \<and> sorted_wrt precedes (recommended_rows db uid count ctype)
   \<and> length (get_personalized_recommendations db uid count ctype) \<le> nat count
   \<and> (\<forall>u. User_get db uid = Inr u \<and> 0 \<le> count \<longrightarrow>
         recommended_rows db uid count ctype
           = take (nat count) (recommended_content db uid (user_age_group_id u) ctype))
   \<and> (\<forall>i j. i < length (recommended_rows db uid count ctype)
          \<and> j < length (recommended_rows db uid count ctype)
          \<and> started db uid (recommended_rows db uid count ctype ! i)
          \<and> \<not> started db uid (recommended_rows db uid count ctype ! j)
          \<longrightarrow> i < j)
   \<and> (\<forall>u a b. User_get db uid = Inr u
          \<and> a \<in> set (recommended_content db uid (user_age_group_id u) ctype)
          \<and> started db uid a
          \<and> b \<in> set (recommended_rows db uid count ctype)
          \<and> \<not> started db uid b
          \<longrightarrow> a \<in> set (recommended_rows db uid count ctype))"
proof -
  let ?rows = "recommended_rows db uid count ctype"
  have fmt: "get_personalized_recommendations db uid count ctype = map format_item ?rows"
    by (rule format_rows)
  have srt: "sorted_wrt precedes ?rows" by (rule recommended_rows_sorted)
  have len: "length ?rows \<le> nat count"
    using recommended_rows_cases [of db uid count ctype] by auto
  have pre: "?rows = take (nat count) (recommended_content db uid (user_age_group_id u) ctype)"
    if "User_get db uid = Inr u \<and> 0 \<le> count" for u
    using that by (simp add: recommended_rows_found)
  have ord: "i < j" if h: "i < length ?rows" "j < length ?rows"
      "started db uid (?rows ! i)" "\<not> started db uid (?rows ! j)" for i j
  proof (rule ccontr)
    assume "\<not> i < j"
    then have ji: "j \<le> i" by simp
    have pi: "in_progress (?rows ! i) = 10"
      using recommended_rows_in_progress [of "?rows ! i" db uid count ctype] h by simp
    have pj: "in_progress (?rows ! j) = 0"
      using recommended_rows_in_progress [of "?rows ! j" db uid count ctype] h by simp
    from pi pj have "i \<noteq> j" by auto
    with ji have "j < i" by simp
    with srt h(1) have "precedes (?rows ! j) (?rows ! i)"
      unfolding sorted_wrt_iff_nth_less by blast
    with started_strictly_precedes [OF pi pj] show False by simp
  qed
  have keep: "a \<in> set ?rows"
    if h: "User_get db uid = Inr u"
      "a \<in> set (recommended_content db uid (user_age_group_id u) ctype)" "started db uid a"
      "b \<in> set ?rows" "\<not> started db uid b" for u a b
  proof -
    from h(4) have "?rows \<noteq> []" by auto
    with recommended_rows_cases [of db uid count ctype] h(1)
    have rows: "?rows = take (nat count) (recommended_content db uid (user_age_group_id u) ctype)"
      by auto
    have pa: "in_progress a = 10"
      using recommended_content_in_progress [OF h(2)] h(3) by simp
    have pb: "in_progress b = 0"
      using recommended_rows_in_progress [OF h(4)] h(5) by simp
    from started_strictly_precedes [OF pa pb] have "\<not> precedes b a" by simp
    from take_keeps_strictly_earlier [OF recommended_content_sorted h(2) _ this, of "nat count"]
      h(4) rows
    show ?thesis by simp
  qed
  from fmt len have len': "length (get_personalized_recommendations db uid count ctype) \<le> nat count"
    by simp
  have c4: "\<forall>u. User_get db uid = Inr u \<and> 0 \<le> count \<longrightarrow>
         ?rows = take (nat count) (recommended_content db uid (user_age_group_id u) ctype)"
    using pre by blast
  have c5: "\<forall>i j. i < length ?rows \<and> j < length ?rows
          \<and> started db uid (?rows ! i) \<and> \<not> started db uid (?rows ! j) \<longrightarrow> i < j"
    using ord by blast
  have c6: "\<forall>u a b. User_get db uid = Inr u
          \<and> a \<in> set (recommended_content db uid (user_age_group_id u) ctype)
          \<and> started db uid a \<and> b \<in> set ?rows \<and> \<not> started db uid b
          \<longrightarrow> a \<in> set ?rows"
    using keep by blast
  from fmt srt len' c4 c5 c6 show ?thesis by (intro conjI)
qed

theorem recommendations_ordered_witness:
  "get_personalized_recommendations demo_db 1 2 None
     = map format_item (recommended_rows demo_db 1 2 None)
   \<and> recommended_rows demo_db 1 2 None
       = [\<lparr> item = item_loops, in_progress = 10, relevance_score = 1 \<rparr>,
          \<lparr> item = item_variables, in_progress = 0, relevance_score = 5 \<rparr>]
   \<and> started demo_db 1 (recommended_rows demo_db 1 2 None ! 0)
   \<and> \<not> started demo_db 1 (recommended_rows demo_db 1 2 None ! 1)
   \<and> precedes (recommended_rows demo_db 1 2 None ! 0) (recommended_rows demo_db 1 2 None ! 1)
   \<and> length (get_personalized_recommendations demo_db 1 2 None) \<le> 2"
proof -
  have s0: "started demo_db 1 (recommended_rows demo_db 1 2 None ! 0)"
    by (simp add: demo_rows started_def demo_viewed item_loops_def)
  have s1: "\<not> started demo_db 1 (recommended_rows demo_db 1 2 None ! 1)"
    by (simp add: demo_rows started_def demo_viewed item_variables_def)
  have len: "length (recommended_rows demo_db 1 2 None) = 2"
    by (simp add: demo_rows)
  from recommendations_ordered [of demo_db 1 2 None]
  have "get_personalized_recommendations demo_db 1 2 None
          = map format_item (recommended_rows demo_db 1 2 None)"
    and "sorted_wrt precedes (recommended_rows demo_db 1 2 None)"
    and "length (get_personalized_recommendations demo_db 1 2 None) \<le> nat 2"
    by blast+
  moreover from this(2) len
  have "precedes (recommended_rows demo_db 1 2 None ! 0) (recommended_rows demo_db 1 2 None ! 1)"
    by (simp add: sorted_wrt_iff_nth_less)
  ultimately show ?thesis using s0 s1 demo_rows by simp
qed

text \<open>
  Claim C7. Every entry of the returned list stands for a content item of the catalog
  whose age group is the age group of the user: its \<open>content_id\<close> and \<open>title\<close> are
  those of such an item. Nothing is returned for a user that is not found or that has no
  age group.
\<close>

theorem recommendations_in_age_group:
  "\<forall>d \<in> set (get_personalized_recommendations db uid count ctype).
     \<exists>u c. User_get db uid = Inr u \<and> c \<in> set (contents db)
          \<and> user_age_group_id u = Some (age_group_id c)
          \<and> map_of d ''content_id'' = Some (PyInt (content_pk c))
          \<and> map_of d ''title'' = Some (PyStr (title c))"
proof
  fix d assume d: "d \<in> set (get_personalized_recommendations db uid count ctype)"
  then obtain rows
    where rows: "recommendations db uid count ctype = Inr rows" "d \<in> format_item ` set rows"
    by (cases "recommendations db uid count ctype")
      (auto simp: get_personalized_recommendations_def)
  then obtain r where r: "r \<in> set rows" "d = format_item r" by auto
  from rows(1) obtain u :: user where u: "User_get db uid = Inr u"
      "rows = take (nat count) (recommended_content db uid (user_age_group_id u) ctype)"
    by (auto simp: recommendations_def split: sum.splits if_splits)
  from r(1) u(2) have "r \<in> set (recommended_content db uid (user_age_group_id u) ctype)"
    by (auto dest: in_set_takeD)
  then have "item r \<in> set (contents db) \<and> user_age_group_id u = Some (age_group_id (item r))"
    by (auto simp: recommended_content_def Let_def item_annotate split: option.splits)
  with u(1) r(2)
  show "\<exists>u c. User_get db uid = Inr u \<and> c \<in> set (contents db)
          \<and> user_age_group_id u = Some (age_group_id c)
          \<and> map_of d ''content_id'' = Some (PyInt (content_pk c))
          \<and> map_of d ''title'' = Some (PyStr (title c))"
    by (auto simp: format_item_def)
qed

theorem recommendations_in_age_group_witness:
  "format_item \<lparr> item = item_variables, in_progress = 0, relevance_score = 5 \<rparr>
     \<in> set (get_personalized_recommendations demo_db 1 2 None)
   \<and> (\<exists>u c. User_get demo_db 1 = Inr u \<and> c \<in> set (contents demo_db)
          \<and> user_age_group_id u = Some (age_group_id c)
          \<and> map_of (format_item \<lparr> item = item_variables, in_progress = 0, relevance_score = 5 \<rparr>)
               ''content_id'' = Some (PyInt (content_pk c))
          \<and> map_of (format_item \<lparr> item = item_variables, in_progress = 0, relevance_score = 5 \<rparr>)
               ''title'' = Some (PyStr (title c)))
   \<and> age_group_id item_variables = 7
   \<and> age_group_id item_functions = 8"
proof -
  have mem: "format_item \<lparr> item = item_variables, in_progress = 0, relevance_score = 5 \<rparr>
     \<in> set (get_personalized_recommendations demo_db 1 2 None)"
    by (simp add: format_rows demo_rows)
  from recommendations_in_age_group [of demo_db 1 2 None] mem
  have "\<exists>u c. User_get demo_db 1 = Inr u \<and> c \<in> set (contents demo_db)
          \<and> user_age_group_id u = Some (age_group_id c)
          \<and> map_of (format_item \<lparr> item = item_variables, in_progress = 0, relevance_score = 5 \<rparr>)
               ''content_id'' = Some (PyInt (content_pk c))
          \<and> map_of (format_item \<lparr> item = item_variables, in_progress = 0, relevance_score = 5 \<rparr>)
               ''title'' = Some (PyStr (title c))"
    by blast
  with mem show ?thesis by (simp add: item_variables_def item_functions_def)
qed

text \<open>
  Claim C8. \<open>get_personalized_recommendations\<close> returns a list on every input: when
  the user is not found, and when the body raises for any other reason (the database
  cannot be reached, \<open>count\<close> is negative), the list is empty; otherwise it is the
  formatted rows and has at most \<open>count\<close> entries.
\<close>

theorem recommendations_never_raise:
  "(\<forall>e. User_get db uid = Inl e \<longrightarrow> get_personalized_recommendations db uid count ctype = [])
   \<and> (\<forall>e. recommendations db uid count ctype = Inl e \<longrightarrow>
          get_personalized_recommendations db uid count ctype = [])
   \<and> (\<forall>rows. recommendations db uid count ctype = Inr rows \<longrightarrow>
          get_personalized_recommendations db uid count ctype = map format_item rows
          \<and> int (length (get_personalized_recommendations db uid count ctype)) \<le> count)
   \<and> length (get_personalized_recommendations db uid count ctype) \<le> nat count"
  by (auto simp: get_personalized_recommendations_def recommendations_def
      split: sum.splits if_splits)

theorem recommendations_never_raise_witness:
  "User_get demo_db 3 = Inl (DoesNotExist ''User'')
   \<and> get_personalized_recommendations demo_db 3 2 None = []
   \<and> recommendations demo_db 1 (- 1) None = Inl NegativeIndexing
   \<and> get_personalized_recommendations demo_db 1 (- 1) None = []
   \<and> recommendations (demo_db\<lparr> available := False \<rparr>) 1 2 None = Inl unavailable
   \<and> get_personalized_recommendations (demo_db\<lparr> available := False \<rparr>) 1 2 None = []
   \<and> recommendations demo_db 1 2 None
       = Inr [\<lparr> item = item_loops, in_progress = 10, relevance_score = 1 \<rparr>,
              \<lparr> item = item_variables, in_progress = 0, relevance_score = 5 \<rparr>]
   \<and> int (length (get_personalized_recommendations demo_db 1 2 None)) \<le> 2"
proof -
  have neg: "recommendations demo_db 1 (- 1) None = Inl NegativeIndexing"
    by (simp add: recommendations_def User_get_1)
  have down: "recommendations (demo_db\<lparr> available := False \<rparr>) 1 2 None = Inl unavailable"
    by (simp add: recommendations_def User_get_def)
  have ok: "recommendations demo_db 1 2 None
       = Inr [\<lparr> item = item_loops, in_progress = 10, relevance_score = 1 \<rparr>,
              \<lparr> item = item_variables, in_progress = 0, relevance_score = 5 \<rparr>]"
    by (simp add: recommendations_def User_get_1 demo_content)
  from recommendations_never_raise [of demo_db 3 2 None]
    recommendations_never_raise [of demo_db 1 "- 1" None]
    recommendations_never_raise [of "demo_db\<lparr> available := False \<rparr>" 1 2 None]
    recommendations_never_raise [of demo_db 1 2 None]
    User_get_3 neg down ok
  show ?thesis by simp
qed

section \<open>Results about the difficulty estimate\<close>

lemma py_round_nearest: "\<bar>q - of_int (py_round q)\<bar> \<le> 1 / 2"
proof -
  define f where "f = \<lfloor>q\<rfloor>"
  have bounds: "of_int f \<le> q" "q < of_int f + 1"
    unfolding f_def by linarith+
  consider (down) "q - of_int f < 1 / 2" | (up) "1 / 2 < q - of_int f"
    | (tie) "q - of_int f = 1 / 2"
    by linarith
  then show ?thesis
  proof cases
    case down
    then have "py_round q = f" by (simp add: py_round_def Let_def f_def)
    with bounds down show ?thesis by (simp add: abs_if)
  next
    case up
    then have "py_round q = f + 1" by (simp add: py_round_def Let_def f_def)
    with bounds up show ?thesis by (simp add: abs_if)
  next
    case tie
    then have "py_round q = f \<or> py_round q = f + 1" by (simp add: py_round_def Let_def f_def)
    with bounds tie show ?thesis by (auto simp: abs_if)
  qed
qed

text \<open>
  The two queries of the source select the records that the statements read from the
  table: the completed records are those from 75 percent, and the records from 90 percent
  among them are all the records from 90 percent.
\<close>

lemma completed_progress_records: "completed_progress db uid = records_from db uid 75"
  by (simp add: completed_progress_def records_from_def)

lemma high_score_records:
  "filter (\<lambda>p. 90 \<le> completion_percentage p) (records_from db uid 75)
     = records_from db uid 90"
  unfolding records_from_def filter_filter
  by (rule filter_cong) auto

lemma map_filter_map: "List.map_filter (\<lambda>v. v) (map f xs) = List.map_filter f xs"
  by (simp add: List.map_filter_def filter_map comp_def)

lemma difficulties_of_records:
  "List.map_filter (content_difficulty_base db) rs
     = map difficulty_base (List.map_filter (content_of db) rs)"
  by (induction rs)
    (auto simp: List.map_filter_simps content_difficulty_base_def content_of_def
      split: option.splits)

lemma avg_diff_mean: "avg_diff db uid = mean_difficulty db uid"
  by (simp add: avg_diff_def Avg_def Let_def map_filter_map difficulties_of_records
      completed_progress_records mean_difficulty_def completed_content_def mean_def)

lemma or_1_round: "clamp_1_5 (py_round (or_1 (Some m))) = clamp_1_5 (py_round m)"
  by (simp add: or_1_def clamp_1_5_def py_round_def)

lemma or_1_none: "clamp_1_5 (py_round (or_1 None)) = 1"
  by (simp add: or_1_def clamp_1_5_def py_round_def)

lemma ratio_iff:
  assumes "b \<noteq> (0::nat)"
  shows "(7 / 10 \<le> (of_nat a / of_nat b :: rat)) \<longleftrightarrow> 7 * b \<le> 10 * a"
proof -
  have "(7 / 10 \<le> (of_nat a / of_nat b :: rat)) \<longleftrightarrow> (7 * of_nat b \<le> (10 * of_nat a :: rat))"
    using assms by (simp add: field_simps)
  also have "\<dots> \<longleftrightarrow> (of_nat (7 * b) \<le> (of_nat (10 * a) :: rat))" by simp
  also have "\<dots> \<longleftrightarrow> 7 * b \<le> 10 * a" by (simp only: of_nat_le_iff)
  finally show ?thesis .
qed

lemma true_div_high:
  assumes "b \<noteq> 0"
  shows "\<exists>r. true_div a b = Inr r \<and> ((7 / 10 \<le> r) = (7 * b \<le> 10 * a))"
proof -
  from assms have "true_div a b = Inr (of_nat a / of_nat b)" by (simp add: true_div_def)
  with ratio_iff [OF assms, of a] show ?thesis by blast
qed

lemma difficulty_body_completed:
  assumes "available db" and "records_from db uid 75 \<noteq> []"
  shows "difficulty_body db uid =
     Inr (let r = clamp_1_5 (py_round (or_1 (mean_difficulty db uid)))
          in if 7 * length (records_from db uid 75) \<le> 10 * length (records_from db uid 90)
             then min 5 (r + 1) else r)"
proof -
  from assms(2) have ne: "completed_progress db uid \<noteq> []"
    by (simp add: completed_progress_records)
  from assms(2) have "length (records_from db uid 75) \<noteq> 0" by simp
  from true_div_high [OF this, of "length (records_from db uid 90)"]
  obtain r where r:
      "true_div (length (records_from db uid 90)) (length (records_from db uid 75)) = Inr r"
      "(7 / 10 \<le> r)
         = (7 * length (records_from db uid 75) \<le> 10 * length (records_from db uid 90))"
    by blast
  have "true_div
          (length (filter (\<lambda>p. 90 \<le> completion_percentage p) (completed_progress db uid)))
          (length (completed_progress db uid)) = Inr r"
    using r(1) by (simp add: high_score_records completed_progress_records)
  with assms(1) ne r(2) show ?thesis
    by (simp add: difficulty_body_def Let_def clamp_1_5_def avg_diff_mean)
qed

lemma estimate_in_range:
  "1 \<le> get_appropriate_difficulty_level db uid \<and> get_appropriate_difficulty_level db uid \<le> 5"
  by (auto simp: get_appropriate_difficulty_level_def difficulty_body_def Let_def true_div_def
      split: sum.splits if_splits)

text \<open>The records and the completed content of the three learners.\<close>

lemma school_available: "available school_db"
  by (simp add: school_db_def)

lemma school_contents: "contents school_db = [item_loops, item_variables, item_lists]"
  by (simp add: school_db_def)

lemma item_keys:
  "content_pk item_loops = 10" "content_pk item_variables = 11" "content_pk item_lists = 13"
  by (simp_all add: item_loops_def item_variables_def item_lists_def)

lemma item_difficulties:
  "difficulty_base item_loops = 4" "difficulty_base item_variables = 1"
  "difficulty_base item_lists = 2"
  by (simp_all add: item_loops_def item_variables_def item_lists_def)

lemma school_completed_4:
  "records_from school_db 4 75
     = [\<lparr> user_id = 4, content_id = Some 10, challenge_id = None, completion_percentage = 100 \<rparr>,
        \<lparr> user_id = 4, content_id = Some 11, challenge_id = None, completion_percentage = 95 \<rparr>,
        \<lparr> user_id = 4, content_id = None, challenge_id = Some 5, completion_percentage = 90 \<rparr>,
        \<lparr> user_id = 4, content_id = None, challenge_id = Some 6, completion_percentage = 80 \<rparr>]"
  by (simp add: records_from_def school_db_def)

lemma school_high_4:
  "records_from school_db 4 90
     = [\<lparr> user_id = 4, content_id = Some 10, challenge_id = None, completion_percentage = 100 \<rparr>,
        \<lparr> user_id = 4, content_id = Some 11, challenge_id = None, completion_percentage = 95 \<rparr>,
        \<lparr> user_id = 4, content_id = None, challenge_id = Some 5, completion_percentage = 90 \<rparr>]"
  by (simp add: records_from_def school_db_def)

lemma school_content_4: "completed_content school_db 4 = [item_loops, item_variables]"
  by (simp add: completed_content_def school_completed_4 List.map_filter_simps content_of_def
      school_contents item_keys)

lemma school_mean_4: "mean_difficulty school_db 4 = Some (5 / 2)"
  by (simp add: mean_difficulty_def school_content_4 mean_def item_difficulties)

lemma school_completed_5:
  "records_from school_db 5 75
     = [\<lparr> user_id = 5, content_id = None, challenge_id = Some 5, completion_percentage = 100 \<rparr>,
        \<lparr> user_id = 5, content_id = None, challenge_id = Some 6, completion_percentage = 95 \<rparr>]"
  by (simp add: records_from_def school_db_def)

lemma school_high_5:
  "records_from school_db 5 90
     = [\<lparr> user_id = 5, content_id = None, challenge_id = Some 5, completion_percentage = 100 \<rparr>,
        \<lparr> user_id = 5, content_id = None, challenge_id = Some 6, completion_percentage = 95 \<rparr>]"
  by (simp add: records_from_def school_db_def)

lemma school_content_5: "completed_content school_db 5 = []"
  by (simp add: completed_content_def school_completed_5 List.map_filter_simps content_of_def)

lemma school_mean_5: "mean_difficulty school_db 5 = None"
  by (simp add: mean_difficulty_def school_content_5)

lemma school_records_6:
  "filter (\<lambda>p. user_id p = 6) (progress school_db)
     = [\<lparr> user_id = 6, content_id = Some 10, challenge_id = None, completion_percentage = 10 \<rparr>,
        \<lparr> user_id = 6, content_id = Some 11, challenge_id = None, completion_percentage = 74 \<rparr>]"
  by (simp add: school_db_def)

lemma py_round_tie: "py_round (5 / 2) = 2"
proof -
  have "\<lfloor>5 / 2 :: rat\<rfloor> = 2" by linarith
  then show ?thesis by (simp add: py_round_def Let_def)
qed

text \<open>
  Claim C5, as amended. Take a user whose progress records can be read, who has at least
  one record with a \<open>completion_percentage\<close> of 75 or more (a completed record), and at
  least 70 percent of whose completed records have 90 or more. Then
  \<open>get_appropriate_difficulty_level\<close> returns \<open>min(5, r + 1)\<close>, where \<open>r\<close> is the mean
  \<open>difficulty_base\<close> of the content items of the completed records, rounded to a nearest
  integer (a tie goes to the even one) and clamped to 1..5 before the increment. When
  none of the completed records belongs to a content item there is no mean; the code
  takes 1 in its place and returns 2.
\<close>

theorem difficulty_boost:
  assumes up: "available db"
    and some: "records_from db uid 75 \<noteq> []"
    and high: "7 * length (records_from db uid 75) \<le> 10 * length (records_from db uid 90)"
  shows "get_appropriate_difficulty_level db uid
           = (case mean_difficulty db uid of
                None \<Rightarrow> 2
              | Some m \<Rightarrow> min 5 (clamp_1_5 (py_round m) + 1))
         \<and> (\<forall>m. mean_difficulty db uid = Some m \<longrightarrow> \<bar>m - of_int (py_round m)\<bar> \<le> 1 / 2)"
proof
  have estimate: "get_appropriate_difficulty_level db uid
      = min 5 (clamp_1_5 (py_round (or_1 (mean_difficulty db uid))) + 1)"
    using difficulty_body_completed [OF up some] high
    by (simp add: get_appropriate_difficulty_level_def Let_def)
  show "get_appropriate_difficulty_level db uid
           = (case mean_difficulty db uid of
                None \<Rightarrow> 2
              | Some m \<Rightarrow> min 5 (clamp_1_5 (py_round m) + 1))"
  proof (cases "mean_difficulty db uid")
    case None
    with estimate show ?thesis by (simp add: or_1_none)
  next
    case (Some m)
    with estimate show ?thesis by (simp add: or_1_round)
  qed
  show "\<forall>m. mean_difficulty db uid = Some m \<longrightarrow> \<bar>m - of_int (py_round m)\<bar> \<le> 1 / 2"
    by (intro allI impI) (rule py_round_nearest)
qed

theorem difficulty_boost_witness:
  "available school_db
   \<and> length (records_from school_db 4 75) = 4
   \<and> length (records_from school_db 4 90) = 3
   \<and> completed_content school_db 4 = [item_loops, item_variables]
   \<and> mean_difficulty school_db 4 = Some (5 / 2)
   \<and> get_appropriate_difficulty_level school_db 4 = 3
   \<and> length (records_from school_db 5 75) = 2
   \<and> length (records_from school_db 5 90) = 2
   \<and> mean_difficulty school_db 5 = None
   \<and> get_appropriate_difficulty_level school_db 5 = 2"
proof -
  have len4: "length (records_from school_db 4 75) = 4" by (simp add: school_completed_4)
  have high4: "length (records_from school_db 4 90) = 3" by (simp add: school_high_4)
  have some4: "records_from school_db 4 75 \<noteq> []" by (simp add: school_completed_4)
  have ratio4:
    "7 * length (records_from school_db 4 75) \<le> 10 * length (records_from school_db 4 90)"
    by (simp add: len4 high4)
  from difficulty_boost [OF school_available some4 ratio4]
  have r4: "get_appropriate_difficulty_level school_db 4 = 3"
    by (simp add: school_mean_4 py_round_tie clamp_1_5_def)
  have len5: "length (records_from school_db 5 75) = 2" by (simp add: school_completed_5)
  have high5: "length (records_from school_db 5 90) = 2" by (simp add: school_high_5)
  have some5: "records_from school_db 5 75 \<noteq> []" by (simp add: school_completed_5)
  have ratio5:
    "7 * length (records_from school_db 5 75) \<le> 10 * length (records_from school_db 5 90)"
    by (simp add: len5 high5)
  from difficulty_boost [OF school_available some5 ratio5]
  have r5: "get_appropriate_difficulty_level school_db 5 = 2"
    by (simp add: school_mean_5)
  from school_available len4 high4 school_content_4 school_mean_4 r4 len5 high5 school_mean_5 r5
  show ?thesis by (intro conjI)
qed

text \<open>
  The claim as stated names the mean difficulty of the completed content for every such
  user. User 5 has two completed records, both with 90 percent or more and both of a
  challenge only: there is no completed content and no mean, so the estimate is none of
  the values \<open>min(5, round(mean) + 1)\<close>; the code returns 2.
\<close>

theorem difficulty_boost_counterexample:
  "available school_db
   \<and> records_from school_db 5 75
       = [\<lparr> user_id = 5, content_id = None, challenge_id = Some 5, completion_percentage = 100 \<rparr>,
          \<lparr> user_id = 5, content_id = None, challenge_id = Some 6, completion_percentage = 95 \<rparr>]
   \<and> records_from school_db 5 90 = records_from school_db 5 75
   \<and> completed_content school_db 5 = []
   \<and> get_appropriate_difficulty_level school_db 5 = 2
   \<and> Some (get_appropriate_difficulty_level school_db 5)
       \<noteq> map_option boosted (mean_difficulty school_db 5)"
proof -
  have some: "records_from school_db 5 75 \<noteq> []" by (simp add: school_completed_5)
  have same: "records_from school_db 5 90 = records_from school_db 5 75"
    by (simp add: school_completed_5 school_high_5)
  from difficulty_body_completed [OF school_available some]
  have r: "get_appropriate_difficulty_level school_db 5 = 2"
    by (simp add: get_appropriate_difficulty_level_def Let_def same school_mean_5 or_1_none)
  have differ: "Some (get_appropriate_difficulty_level school_db 5)
       \<noteq> map_option boosted (mean_difficulty school_db 5)"
    by (simp add: school_mean_5)
  from school_available school_completed_5 same school_content_5 r differ
  show ?thesis by (intro conjI)
qed

text \<open>
  Claim C6. A user none of whose progress records has a \<open>completion_percentage\<close> of 75
  or more gets the difficulty 1, and so does every call whose body raises, as it does
  when the database cannot be read.
\<close>

theorem difficulty_floor:
  "((\<forall>p\<in>set (progress db). user_id p = uid \<longrightarrow> completion_percentage p < 75)
      \<longrightarrow> get_appropriate_difficulty_level db uid = 1)
   \<and> (\<forall>e. difficulty_body db uid = Inl e \<longrightarrow> get_appropriate_difficulty_level db uid = 1)
   \<and> (\<not> available db \<longrightarrow> get_appropriate_difficulty_level db uid = 1)"
proof (intro conjI impI allI)
  assume below: "\<forall>p\<in>set (progress db). user_id p = uid \<longrightarrow> completion_percentage p < 75"
  have "completed_progress db uid = []"
    unfolding completed_progress_def filter_empty_conv
  proof (intro ballI)
    fix p
    assume "p \<in> set (progress db)"
    with below have "user_id p = uid \<longrightarrow> completion_percentage p < 75" by blast
    then show "\<not> (user_id p = uid \<and> 75 \<le> completion_percentage p)" by auto
  qed
  then show "get_appropriate_difficulty_level db uid = 1"
    by (simp add: get_appropriate_difficulty_level_def difficulty_body_def Let_def)
next
  fix e
  assume "difficulty_body db uid = Inl e"
  then show "get_appropriate_difficulty_level db uid = 1"
    by (simp add: get_appropriate_difficulty_level_def)
next
  assume "\<not> available db"
  then show "get_appropriate_difficulty_level db uid = 1"
    by (simp add: get_appropriate_difficulty_level_def difficulty_body_def)
qed

theorem difficulty_floor_witness:
  "filter (\<lambda>p. user_id p = 6) (progress school_db)
     = [\<lparr> user_id = 6, content_id = Some 10, challenge_id = None, completion_percentage = 10 \<rparr>,
        \<lparr> user_id = 6, content_id = Some 11, challenge_id = None, completion_percentage = 74 \<rparr>]
   \<and> get_appropriate_difficulty_level school_db 6 = 1
   \<and> records_from school_db 4 75 \<noteq> []
   \<and> difficulty_body (school_db\<lparr> available := False \<rparr>) 4 = Inl unavailable
   \<and> get_appropriate_difficulty_level (school_db\<lparr> available := False \<rparr>) 4 = 1"
proof -
  have below: "\<forall>p\<in>set (progress school_db). user_id p = 6 \<longrightarrow> completion_percentage p < 75"
    by (simp add: school_db_def)
  with difficulty_floor [of school_db 6]
  have r6: "get_appropriate_difficulty_level school_db 6 = 1" by blast
  have some4: "records_from school_db 4 75 \<noteq> []" by (simp add: school_completed_4)
  have down: "difficulty_body (school_db\<lparr> available := False \<rparr>) 4 = Inl unavailable"
    by (simp add: difficulty_body_def)
  with difficulty_floor [of "school_db\<lparr> available := False \<rparr>" 4]
  have r4: "get_appropriate_difficulty_level (school_db\<lparr> available := False \<rparr>) 4 = 1" by blast
  from school_records_6 r6 some4 down r4 show ?thesis by (intro conjI)
qed

end
